theory Spec2Isabelle
  imports Main "HOL-Library.Word"
begin

unbundle bit_operations_syntax

section \<open>Replication-progress bookkeeping of zrepl: holds, step bookmarks, cursor\<close>

text \<open>
  A Go \<^verbatim>\<open>string\<close> is a sequence of bytes and \<^verbatim>\<open>len\<close> counts bytes; it is modelled
  as a \<^typ>\<open>string\<close>, whose elements are 8-bit characters. A \<^verbatim>\<open>uint64\<close> is a
  \<^typ>\<open>64 word\<close>. A function that returns \<^verbatim>\<open>(T, error)\<close> returns \<open>error + T\<close> here
  (\<open>Inl\<close> the error), one that returns only \<^verbatim>\<open>error\<close> returns \<open>error option\<close>, and a
  \<^verbatim>\<open>panic\<close> is the error value \<open>Panic\<close>.
\<close>

subsection \<open>Errors\<close>

datatype error =
    ErrMsg string                 \<comment> \<open>\<^verbatim>\<open>fmt.Errorf\<close> / \<^verbatim>\<open>errors.New\<close>: the message (fixed part, then arguments)\<close>
  | Wrap error string             \<comment> \<open>\<^verbatim>\<open>errors.Wrap(err, msg)\<close>\<close>
  | Errorf string error           \<comment> \<open>\<^verbatim>\<open>fmt.Errorf\<close> of a message that ends in the \<^verbatim>\<open>%s\<close> of an error\<close>
  | PanicErr error                \<comment> \<open>\<^verbatim>\<open>panic(err)\<close>\<close>
  | Panic string                  \<comment> \<open>\<^verbatim>\<open>panic(msg)\<close>\<close>
  | DatasetDoesNotExist string    \<comment> \<open>\<^verbatim>\<open>*zfs.DatasetDoesNotExist\<close> for a path\<close>
  | BookmarkExists string         \<comment> \<open>\<^verbatim>\<open>*zfs.BookmarkExists\<close> for a bookmark path\<close>
  | ErrBookmarkCloningNotSupported
  | ErrUnexpectedEOF              \<comment> \<open>\<^verbatim>\<open>io.ErrUnexpectedEOF\<close>\<close>
  | EOF                           \<comment> \<open>\<^verbatim>\<open>io.EOF\<close>\<close>

text \<open>
  A panic is not a returned error: it unwinds through every caller, so it passes through
  every \<^verbatim>\<open>errors.Wrap\<close> on the way up.
\<close>

fun isPanic :: "error \<Rightarrow> bool" where
  "isPanic (Panic m) = True"
| "isPanic (PanicErr e) = True"
| "isPanic e = False"

definition errors_Wrap :: "error \<Rightarrow> string \<Rightarrow> error" where
  "errors_Wrap err msg = (if isPanic err then err else Wrap err msg)"

text \<open>The type assertion \<^verbatim>\<open>err.(*zfs.DatasetDoesNotExist)\<close>.\<close>

fun isDatasetDoesNotExist :: "error \<Rightarrow> bool" where
  "isDatasetDoesNotExist (DatasetDoesNotExist p) = True"
| "isDatasetDoesNotExist e = False"

subsection \<open>zfs/versions.go: version identity\<close>

datatype VersionType = Bookmark | Snapshot

fun DelimiterChar :: "VersionType \<Rightarrow> string" where
  "DelimiterChar Bookmark = ''#''"
| "DelimiterChar Snapshot = ''@''"

text \<open>
  \<^verbatim>\<open>strings.SplitN(v, sep, 2)\<close> for a separator of one byte: the whole string when the
  separator does not occur, otherwise the part before its first occurrence and the part
  after it.
\<close>

definition SplitN2 :: "string \<Rightarrow> char \<Rightarrow> string list" where
  "SplitN2 v sep =
     (if sep \<in> set v
      then [takeWhile (\<lambda>c. c \<noteq> sep) v, tl (dropWhile (\<lambda>c. c \<noteq> sep) v)]
      else [v])"

definition DecomposeVersionString :: "string \<Rightarrow> error + (string \<times> VersionType \<times> string)" where
  "DecomposeVersionString v =
     (if length v < 3
      then Inl (ErrMsg (''snapshot or bookmark name implausibly short: '' @ v))
      else
        let snapSplit = SplitN2 v (CHR ''@'');
            bookmarkSplit = SplitN2 v (CHR ''#'')
        in if length snapSplit * length bookmarkSplit \<noteq> 2
           then Inl (ErrMsg (''dataset cannot be snapshot and bookmark at the same time: '' @ v))
           else if length snapSplit = 2
                then Inr (snapSplit ! 0, Snapshot, snapSplit ! 1)
                else Inr (bookmarkSplit ! 0, Bookmark, bookmarkSplit ! 1))"

record FilesystemVersion =
  Type :: VersionType
  Name :: string
  Guid :: "64 word"
  CreateTXG :: "64 word"
  Creation :: int   \<comment> \<open>\<^verbatim>\<open>time.Unix(creationUnix, 0)\<close>: seconds since the epoch\<close>

text \<open>A \<^verbatim>\<open>*DatasetPath\<close> is used through its string form only, which stands for it here.\<close>

definition ToAbsPath :: "FilesystemVersion \<Rightarrow> string \<Rightarrow> string" where
  "ToAbsPath v p = p @ DelimiterChar (Type v) @ Name v"

subsection \<open>The name rules of package zfs\<close>

text \<open>
  \<^verbatim>\<open>zfs.EntityNamecheck\<close>, \<^verbatim>\<open>zfs.NewDatasetPath\<close> and \<^verbatim>\<open>zfs.ValidHoldTag\<close> are called by
  the code below and defined elsewhere in package zfs. They are taken as a parameter
  \<open>R\<close>: each yields \<open>None\<close> for a legal name and the error otherwise. Every theorem with a
  free \<open>R\<close> holds whatever these rules are.
\<close>

datatype EntityType =
  EntityTypeFilesystem | EntityTypeVolume | EntityTypeSnapshot | EntityTypeBookmark

record zfs_rules =
  EntityNamecheck :: "string \<Rightarrow> EntityType \<Rightarrow> error option"
  NewDatasetPath :: "string \<Rightarrow> error option"
  ValidHoldTag :: "string \<Rightarrow> error option"

subsection \<open>endpoint/jobid.go\<close>

datatype JobID = JobID (jid: string)

definition MakeJobID :: "zfs_rules \<Rightarrow> string \<Rightarrow> error + JobID" where
  "MakeJobID R s =
     (if length s = 0 then Inl (ErrMsg ''must not be empty string'')
      else case NewDatasetPath R s of
             Some err \<Rightarrow> Inl (Errorf ''must be usable in a ZFS dataset path: '' err)
           | None \<Rightarrow> Inr (JobID s))"

definition MustMakeJobID :: "zfs_rules \<Rightarrow> string \<Rightarrow> error + JobID" where
  "MustMakeJobID R s =
     (case MakeJobID R s of Inl err \<Rightarrow> Inl (PanicErr err) | Inr j \<Rightarrow> Inr j)"

definition expectInitialized :: "JobID \<Rightarrow> error option" where
  "expectInitialized j = (if jid j = [] then Some (Panic ''use of unitialized JobID'') else None)"

definition String :: "JobID \<Rightarrow> error + string" where
  "String j = (case expectInitialized j of Some p \<Rightarrow> Inl p | None \<Rightarrow> Inr (jid j))"

text \<open>
  \<^verbatim>\<open>json.Unmarshal(b, &j.jid)\<close> belongs to Go's standard library; it is the parameter
  \<open>unmarshal\<close>, which maps the input bytes and the present value of the string to the
  returned error and the new value of the string. \<open>UnmarshalJSON\<close> has a pointer
  receiver: it returns the error and the updated \<open>JobID\<close>.
\<close>

definition UnmarshalJSON ::
  "(string \<Rightarrow> string \<Rightarrow> error option \<times> string) \<Rightarrow> JobID \<Rightarrow> string \<Rightarrow> error option \<times> JobID" where
  "UnmarshalJSON unmarshal j b = (case unmarshal b (jid j) of (err, s) \<Rightarrow> (err, JobID s))"

definition MustValidate :: "JobID \<Rightarrow> error option" where
  "MustValidate j = expectInitialized j"

subsection \<open>Go's \<^verbatim>\<open>regexp\<close> and \<^verbatim>\<open>fmt\<close> on the patterns the codec uses\<close>

text \<open>\<open>match_literal l s\<close>: the rest of \<open>s\<close> after the literal \<open>l\<close>, when \<open>s\<close> starts with it.\<close>

fun match_literal :: "string \<Rightarrow> string \<Rightarrow> string option" where
  "match_literal [] s = Some s"
| "match_literal (c # cs) [] = None"
| "match_literal (c # cs) (d # ds) = (if c = d then match_literal cs ds else None)"

definition newline :: char where
  "newline = char_of (10 :: nat)"

text \<open>
  \<^verbatim>\<open>regexp.MustCompile("^zrepl_STEP_J_(.+)").FindStringSubmatch(tag)\<close>. The pattern is
  anchored at the start only; \<^verbatim>\<open>.\<close> matches every character but the newline, and \<^verbatim>\<open>+\<close> is
  greedy: group 1 is the longest run without a newline after the literal, and it must not
  be empty. The result is the whole match followed by group 1.
\<close>

definition stepHoldTagRE :: "string \<Rightarrow> string list option" where
  "stepHoldTagRE tag =
     (case match_literal ''zrepl_STEP_J_'' tag of
        None \<Rightarrow> None
      | Some rest \<Rightarrow>
          let g = takeWhile (\<lambda>c. c \<noteq> newline) rest
          in if g = [] then None else Some [''zrepl_STEP_J_'' @ g, g])"

text \<open>
  \<^verbatim>\<open>regexp.MustCompile("^zrepl_last_received_J_(.+)$").FindStringSubmatch(tag)\<close>: \<^verbatim>\<open>$\<close>
  (without the multi-line flag) matches at the end of the text only, so group 1 is the
  whole rest, which must be non-empty and free of newlines.
\<close>

definition lastReceivedHoldTagRE :: "string \<Rightarrow> string list option" where
  "lastReceivedHoldTagRE tag =
     (case match_literal ''zrepl_last_received_J_'' tag of
        None \<Rightarrow> None
      | Some rest \<Rightarrow>
          if rest \<noteq> [] \<and> newline \<notin> set rest then Some [tag, rest] else None)"

text \<open>
  \<^verbatim>\<open>utf8.DecodeRune\<close>: the code point at the head of a byte sequence and the number of bytes
  it takes; an invalid or incomplete encoding is \<^verbatim>\<open>RuneError\<close> (U+FFFD) of width 1. A \<^verbatim>\<open>rune\<close>
  is an \<^verbatim>\<open>int32\<close> in Go; runes and the values of bytes are integers here. Within the
  ranges that are checked, the masked bits of a byte are its difference to the lower bound
  of its range (\<^verbatim>\<open>b & 0x3F = b - 0x80\<close> for a continuation byte).
\<close>

definition RuneError :: int where
  "RuneError = 0xFFFD"

definition between :: "int \<Rightarrow> int \<Rightarrow> int \<Rightarrow> bool" where
  "between lo hi b \<longleftrightarrow> lo \<le> b \<and> b \<le> hi"

fun DecodeRune :: "int list \<Rightarrow> int \<times> nat" where
  "DecodeRune [] = (RuneError, 0)"
| "DecodeRune (b0 # bs) =
     (if b0 < 0x80 then (b0, 1)
      else if between 0xC2 0xDF b0 then
        (case bs of
           b1 # _ \<Rightarrow>
             if between 0x80 0xBF b1 then ((b0 - 0xC0) * 64 + (b1 - 0x80), 2)
             else (RuneError, 1)
         | _ \<Rightarrow> (RuneError, 1))
      else if between 0xE0 0xEF b0 then
        (case bs of
           b1 # b2 # _ \<Rightarrow>
             if between (if b0 = 0xE0 then 0xA0 else 0x80) (if b0 = 0xED then 0x9F else 0xBF) b1
                \<and> between 0x80 0xBF b2
             then (((b0 - 0xE0) * 64 + (b1 - 0x80)) * 64 + (b2 - 0x80), 3)
             else (RuneError, 1)
         | _ \<Rightarrow> (RuneError, 1))
      else if between 0xF0 0xF4 b0 then
        (case bs of
           b1 # b2 # b3 # _ \<Rightarrow>
             if between (if b0 = 0xF0 then 0x90 else 0x80) (if b0 = 0xF4 then 0x8F else 0xBF) b1
                \<and> between 0x80 0xBF b2 \<and> between 0x80 0xBF b3
             then ((((b0 - 0xF0) * 64 + (b1 - 0x80)) * 64 + (b2 - 0x80)) * 64 + (b3 - 0x80), 4)
             else (RuneError, 1)
         | _ \<Rightarrow> (RuneError, 1))
      else (RuneError, 1))"

text \<open>
  The scanner reads its input rune by rune. \<open>runes bs\<close> is the sequence of runes of the
  input, each with the bytes that \<^verbatim>\<open>buf.writeRune\<close> appends for it: the bytes read for a
  well-formed rune, the encoding of U+FFFD for an invalid byte.
\<close>

fun runes :: "int list \<Rightarrow> (int \<times> int list) list" where
  "runes [] = []"
| "runes (b # bs) =
     (case DecodeRune (b # bs) of
        (r, n) \<Rightarrow>
          (r, if r = RuneError \<and> n = 1 then [0xEF, 0xBF, 0xBD] else b # take (n - 1) bs)
          # runes (drop (n - 1) bs))"

text \<open>\<^verbatim>\<open>fmt.isSpace\<close>, with the table \<^verbatim>\<open>space\<close> of package \<^verbatim>\<open>fmt\<close>.\<close>

definition space :: "(int \<times> int) list" where
  "space = [(0x0009, 0x000d), (0x0020, 0x0020), (0x0085, 0x0085), (0x00a0, 0x00a0),
            (0x1680, 0x1680), (0x2000, 0x200a), (0x2028, 0x2029), (0x202f, 0x202f),
            (0x205f, 0x205f), (0x3000, 0x3000)]"

definition isSpace :: "int \<Rightarrow> bool" where
  "isSpace r \<longleftrightarrow> r < 0x10000 \<and> list_ex (\<lambda>(lo, hi). lo \<le> r \<and> r \<le> hi) space"

type_synonym rune_input = "(int \<times> int list) list"

text \<open>
  \<^verbatim>\<open>(*ss).advance\<close> on a run of literal ASCII characters of the format: every character
  must be the next rune of the input; the end of the input is \<^verbatim>\<open>io.ErrUnexpectedEOF\<close>, any
  other rune is "input does not match format".
\<close>

fun advance :: "string \<Rightarrow> rune_input \<Rightarrow> error + rune_input" where
  "advance [] inp = Inr inp"
| "advance (c # cs) [] = Inl ErrUnexpectedEOF"
| "advance (c # cs) ((r, w) # inp) =
     (if r = of_char c then advance cs inp else Inl (ErrMsg ''input does not match format''))"

text \<open>
  \<^verbatim>\<open>(*ss).SkipSpace\<close> of \<^verbatim>\<open>Sscanf\<close> (\<^verbatim>\<open>nlIsSpace\<close> is false): spaces are skipped, a newline
  is the error "unexpected newline".
\<close>

fun SkipSpace :: "rune_input \<Rightarrow> error + rune_input" where
  "SkipSpace [] = Inr []"
| "SkipSpace ((r, w) # inp) =
     (if r = 10 then Inl (ErrMsg ''unexpected newline'')
      else if isSpace r then SkipSpace inp
      else Inr ((r, w) # inp))"

definition hexadecimalDigits :: string where
  "hexadecimalDigits = ''0123456789aAbBcCdDeEfF''"

definition hexval :: "int \<Rightarrow> int" where
  "hexval r =
     (if between 0x30 0x39 r then r - 0x30
      else if between 0x61 0x66 r then r - 0x61 + 10
      else r - 0x41 + 10)"

text \<open>
  \<^verbatim>\<open>for s.accept(digits) {}\<close> under a width: at most \<open>wid\<close> further runes are read; the
  accumulator is the value of the digits read so far.
\<close>

fun accept_digits :: "nat \<Rightarrow> int \<Rightarrow> rune_input \<Rightarrow> int \<times> rune_input" where
  "accept_digits 0 acc inp = (acc, inp)"
| "accept_digits (Suc wid) acc [] = (acc, [])"
| "accept_digits (Suc wid) acc ((r, w) # inp) =
     (if r \<in> of_char ` set hexadecimalDigits
      then accept_digits wid (acc * 16 + hexval r) inp
      else (acc, (r, w) # inp))"

text \<open>
  The verb \<^verbatim>\<open>%016x\<close> into a \<^verbatim>\<open>*uint64\<close>: \<^verbatim>\<open>doScanf\<close> skips space, then \<^verbatim>\<open>scanUint\<close> reads
  at most 16 runes: the end of the input is \<^verbatim>\<open>io.EOF\<close> (from \<^verbatim>\<open>notEOF\<close>), a first rune that is
  no hexadecimal digit is "expected integer". At most 16 hexadecimal digits never exceed
  64 bits, so \<^verbatim>\<open>strconv.ParseUint(tok, 16, 64)\<close> succeeds.
\<close>

definition scan_x16 :: "rune_input \<Rightarrow> error + (64 word \<times> rune_input)" where
  "scan_x16 inp =
     (case SkipSpace inp of
        Inl err \<Rightarrow> Inl err
      | Inr [] \<Rightarrow> Inl EOF
      | Inr ((r, w) # rest) \<Rightarrow>
          if r \<in> of_char ` set hexadecimalDigits
          then (case accept_digits 16 0 ((r, w) # rest) of
                  (n, rest') \<Rightarrow> Inr (word_of_int n, rest'))
          else Inl (ErrMsg ''expected integer''))"

text \<open>
  The verb \<^verbatim>\<open>%s\<close> into a \<^verbatim>\<open>*string\<close>: space is skipped, the end of the input is
  \<^verbatim>\<open>io.EOF\<close>, and the token is the run of runes up to the next space.
\<close>

definition scan_s :: "rune_input \<Rightarrow> error + (string \<times> rune_input)" where
  "scan_s inp =
     (case SkipSpace inp of
        Inl err \<Rightarrow> Inl err
      | Inr [] \<Rightarrow> Inl EOF
      | Inr rest \<Rightarrow>
          Inr (map char_of (concat (map snd (takeWhile (\<lambda>(r, w). \<not> isSpace r) rest))),
               dropWhile (\<lambda>(r, w). \<not> isSpace r) rest))"

text \<open>
  \<^verbatim>\<open>fmt.Sscanf(name, "zrepl_STEP_G_%016x_J_%s", &guid, &jobIDStr)\<close>. Input that is left
  after the last verb is ignored.
\<close>

definition Sscanf_zrepl_STEP :: "string \<Rightarrow> error + (64 word \<times> string)" where
  "Sscanf_zrepl_STEP name =
     (case advance ''zrepl_STEP_G_'' (runes (map of_char name)) of
        Inl err \<Rightarrow> Inl err
      | Inr i1 \<Rightarrow>
          (case scan_x16 i1 of
             Inl err \<Rightarrow> Inl err
           | Inr (guid, i2) \<Rightarrow>
               (case advance ''_J_'' i2 of
                  Inl err \<Rightarrow> Inl err
                | Inr i3 \<Rightarrow>
                    (case scan_s i3 of
                       Inl err \<Rightarrow> Inl err
                     | Inr (jobIDStr, i4) \<Rightarrow> Inr (guid, jobIDStr)))))"

text \<open>\<^verbatim>\<open>fmt.Sprintf("%016x", guid)\<close>: the 16 lower-case hexadecimal digits of a \<^verbatim>\<open>uint64\<close>.\<close>

definition hexdigit :: "nat \<Rightarrow> char" where
  "hexdigit d = ''0123456789abcdef'' ! d"

definition Sprintf_016x :: "64 word \<Rightarrow> string" where
  "Sprintf_016x guid =
     map (\<lambda>i. hexdigit (unat (drop_bit (4 * i) guid AND 15))) (rev [0..<16])"

subsection \<open>endpoint/endpoint\_zfs.go: the name codec\<close>

definition StepHoldTag :: "zfs_rules \<Rightarrow> JobID \<Rightarrow> error + string" where
  "StepHoldTag R jobid =
     (case String jobid of
        Inl p \<Rightarrow> Inl p
      | Inr s \<Rightarrow>
          let t = ''zrepl_STEP_J_'' @ s
          in case ValidHoldTag R t of Some err \<Rightarrow> Inl err | None \<Rightarrow> Inr t)"

definition ParseStepHoldTag :: "zfs_rules \<Rightarrow> string \<Rightarrow> error + JobID" where
  "ParseStepHoldTag R tag =
     (case stepHoldTagRE tag of
        None \<Rightarrow> Inl (ErrMsg ''parse hold tag: match regex ^zrepl_STEP_J_(.+)'')
      | Some match \<Rightarrow>
          (case MakeJobID R (match ! 1) of
             Inl err \<Rightarrow> Inl (errors_Wrap err ''parse hold tag: invalid job id field'')
           | Inr jobID \<Rightarrow> Inr jobID))"

definition StepBookmarkName :: "zfs_rules \<Rightarrow> string \<Rightarrow> 64 word \<Rightarrow> JobID \<Rightarrow> error + string" where
  "StepBookmarkName R fs guid jobid =
     (case String jobid of
        Inl p \<Rightarrow> Inl p
      | Inr s \<Rightarrow>
          let bmname = ''zrepl_STEP_G_'' @ Sprintf_016x guid @ ''_J_'' @ s
          in case EntityNamecheck R (fs @ ''#'' @ bmname) EntityTypeBookmark of
               Some err \<Rightarrow> Inl err
             | None \<Rightarrow> Inr bmname)"

definition ParseStepBookmarkName :: "zfs_rules \<Rightarrow> string \<Rightarrow> error + (64 word \<times> JobID)" where
  "ParseStepBookmarkName R name =
     (case EntityNamecheck R name EntityTypeBookmark of
        Some err \<Rightarrow> Inl (errors_Wrap err ''parse step bookmark'')
      | None \<Rightarrow>
          (case Sscanf_zrepl_STEP name of
             Inl err \<Rightarrow> Inl (errors_Wrap err ''step boomark name does not match format string'')
           | Inr (guid, jobIDStr) \<Rightarrow>
               if length jobIDStr = 0
               then Inl (ErrMsg ''parse step bookmark: empty job id field'')
               else (case MakeJobID R jobIDStr of
                       Inl err \<Rightarrow> Inl (errors_Wrap err ''parse step bookmark: invalid job id'')
                     | Inr jobID \<Rightarrow> Inr (guid, jobID))))"

definition ReplicationCursorBookmarkName :: string where
  "ReplicationCursorBookmarkName = ''zrepl_replication_cursor''"

definition ParseLastReceivedHoldTag :: "zfs_rules \<Rightarrow> string \<Rightarrow> error + JobID" where
  "ParseLastReceivedHoldTag R tag =
     (case lastReceivedHoldTagRE tag of
        None \<Rightarrow> Inl (ErrMsg ''parse last-received-hold tag: does not match regex ^zrepl_last_received_J_(.+)$'')
      | Some match \<Rightarrow>
          (case MakeJobID R (match ! 1) of
             Inl err \<Rightarrow> Inl (errors_Wrap err ''parse last-received-hold tag: invalid job id field'')
           | Inr jobId \<Rightarrow> Inr jobId))"

definition LastReceivedHoldTag :: "zfs_rules \<Rightarrow> JobID \<Rightarrow> error + string" where
  "LastReceivedHoldTag R jobID =
     (case String jobID of
        Inl p \<Rightarrow> Inl p
      | Inr s \<Rightarrow>
          let tag = ''zrepl_last_received_J_'' @ s
          in case ValidHoldTag R tag of Some err \<Rightarrow> Inl err | None \<Rightarrow> Inr tag)"

subsection \<open>zfs/versions.go: listing the versions of a filesystem\<close>

text \<open>\<^verbatim>\<open>strconv.ParseUint(s, 10, 64)\<close> and \<^verbatim>\<open>strconv.ParseInt(s, 10, 64)\<close>.\<close>

fun decimal :: "string \<Rightarrow> int \<Rightarrow> int option" where
  "decimal [] acc = Some acc"
| "decimal (c # cs) acc =
     (if between 0x30 0x39 (of_char c) then decimal cs (acc * 10 + (of_char c - 0x30))
      else None)"

definition ParseUint :: "string \<Rightarrow> error + 64 word" where
  "ParseUint s =
     (if s = [] then Inl (ErrMsg ''strconv.ParseUint: invalid syntax'')
      else case decimal s 0 of
             None \<Rightarrow> Inl (ErrMsg ''strconv.ParseUint: invalid syntax'')
           | Some n \<Rightarrow>
               if n < 2 ^ 64 then Inr (word_of_int n)
               else Inl (ErrMsg ''strconv.ParseUint: value out of range''))"

definition ParseInt :: "string \<Rightarrow> error + int" where
  "ParseInt s =
     (if s = [] then Inl (ErrMsg ''strconv.ParseInt: invalid syntax'')
      else
        let neg = (hd s = CHR ''-'');
            s' = (if hd s = CHR ''+'' \<or> hd s = CHR ''-'' then tl s else s)
        in if s' = [] then Inl (ErrMsg ''strconv.ParseInt: invalid syntax'')
           else case decimal s' 0 of
                  None \<Rightarrow> Inl (ErrMsg ''strconv.ParseInt: invalid syntax'')
                | Some un \<Rightarrow>
                    if \<not> neg \<and> un \<ge> 2 ^ 63 then Inl (ErrMsg ''strconv.ParseInt: value out of range'')
                    else if neg \<and> un > 2 ^ 63 then Inl (ErrMsg ''strconv.ParseInt: value out of range'')
                    else Inr (if neg then - un else un))"

text \<open>
  One \<^verbatim>\<open>ZFSListResult\<close> of the channel that \<^verbatim>\<open>ZFSListChan\<close> fills: the fields of a line of
  \<^verbatim>\<open>zfs list\<close>, or an error. \<^verbatim>\<open>ZFSListChan\<close> belongs to the command driver: the listing
  function takes the results that the channel delivers for a filesystem as the parameter
  \<open>L\<close>.
\<close>

record ZFSListResult =
  Fields :: "string list"
  Err :: "error option"

text \<open>\<^verbatim>\<open>line[i]\<close>: an index out of range panics.\<close>

definition index :: "string list \<Rightarrow> nat \<Rightarrow> error + string" where
  "index line i = (if i < length line then Inr (line ! i) else Inl (Panic ''index out of range''))"

type_synonym FilesystemVersionFilter = "VersionType \<Rightarrow> string \<Rightarrow> bool \<times> error option"

text \<open>The body of the loop over the channel: one result becomes one version.\<close>

definition parse_line :: "string list \<Rightarrow> error + FilesystemVersion" where
  "parse_line line =
     (case index line 0 of
        Inl p \<Rightarrow> Inl p
      | Inr f0 \<Rightarrow>
     (case DecomposeVersionString f0 of
        Inl err \<Rightarrow> Inl err
      | Inr (fs, t, n) \<Rightarrow>
     (case index line 1 of
        Inl p \<Rightarrow> Inl p
      | Inr f1 \<Rightarrow>
     (case ParseUint f1 of
        Inl err \<Rightarrow> Inl (errors_Wrap err ''cannot parse GUID'')
      | Inr g \<Rightarrow>
     (case index line 2 of
        Inl p \<Rightarrow> Inl p
      | Inr f2 \<Rightarrow>
     (case ParseUint f2 of
        Inl err \<Rightarrow> Inl (errors_Wrap err ''cannot parse CreateTXG'')
      | Inr txg \<Rightarrow>
     (case index line 3 of
        Inl p \<Rightarrow> Inl p
      | Inr f3 \<Rightarrow>
     (case ParseInt f3 of
        Inl err \<Rightarrow> Inl (Errorf (''cannot parse creation date '' @ f3 @ '': '') err)
      | Inr creationUnix \<Rightarrow>
          Inr \<lparr>Type = t, Name = n, Guid = g, CreateTXG = txg, Creation = creationUnix\<rparr>))))))))"

fun list_loop ::
  "FilesystemVersionFilter option \<Rightarrow> ZFSListResult list \<Rightarrow> FilesystemVersion list
     \<Rightarrow> error + FilesystemVersion list" where
  "list_loop flt [] res = Inr res"
| "list_loop flt (listResult # rest) res =
     (case Err listResult of
        Some err \<Rightarrow> if err = ErrUnexpectedEOF then Inr [] else Inl err
      | None \<Rightarrow>
          (case parse_line (Fields listResult) of
             Inl err \<Rightarrow> Inl err
           | Inr v \<Rightarrow>
               (case flt of
                  None \<Rightarrow> list_loop flt rest (res @ [v])
                | Some f \<Rightarrow>
                    (case f (Type v) (Name v) of
                       (accept, Some err) \<Rightarrow> Inl (Errorf ''error executing filter: '' err)
                     | (accept, None) \<Rightarrow>
                         list_loop flt rest (if accept then res @ [v] else res)))))"

definition ZFSListFilesystemVersions ::
  "(string \<Rightarrow> ZFSListResult list) \<Rightarrow> string \<Rightarrow> FilesystemVersionFilter option
     \<Rightarrow> error + FilesystemVersion list" where
  "ZFSListFilesystemVersions L fs flt = list_loop flt (L fs) []"

subsection \<open>endpoint/endpoint\_zfs.go: reading the replication cursor\<close>

text \<open>The result \<open>Inr None\<close> is the pair of a nil version and a nil error.\<close>

definition GetReplicationCursor ::
  "(string \<Rightarrow> ZFSListResult list) \<Rightarrow> string \<Rightarrow> error + FilesystemVersion option" where
  "GetReplicationCursor L fs =
     (case ZFSListFilesystemVersions L fs None of
        Inl err \<Rightarrow> Inl err
      | Inr versions \<Rightarrow>
          Inr (find (\<lambda>v. Type v = Bookmark \<and> Name v = ReplicationCursorBookmarkName) versions))"

subsection \<open>The ZFS capability port\<close>

text \<open>
  The functions of package zfs that reach the pool (\<^verbatim>\<open>ZFSListChan\<close>, \<^verbatim>\<open>ZFSGetCreateTXGAndGuid\<close>,
  \<^verbatim>\<open>ZFSHold\<close>, \<^verbatim>\<open>ZFSRelease\<close>, \<^verbatim>\<open>ZFSBookmark\<close>, \<^verbatim>\<open>ZFSDestroy\<close>, the batch releases and the
  methods of \<^verbatim>\<open>ZFSSendArgVersion\<close>) belong to the command driver, which is outside this
  development. Each is modelled from the specification's description of the port (section
  4.C, the idempotency contract of section 4.D) and from the platform tests, on an explicit
  state of the pool.
\<close>

text \<open>
  Modelled from the spec: the state of the pool that the port reads and changes. A
  snapshot or bookmark has its full path \<^verbatim>\<open>fs@name\<close> or \<^verbatim>\<open>fs#name\<close>, its guid, create\_txg
  and creation time, and the user holds (tags) on it; whether a bookmark can be made from
  a bookmark is a feature of the pool.
\<close>

record zfs_dataset =
  ds_path :: string
  ds_guid :: "64 word"
  ds_createtxg :: "64 word"
  ds_creation :: int
  ds_holds :: "string list"

record zfs =
  datasets :: "zfs_dataset list"
  bookmark_cloning :: bool

text \<open>Modelled from the spec: the dataset at a full path, if it exists.\<close>

definition lookup :: "string \<Rightarrow> zfs \<Rightarrow> zfs_dataset option" where
  "lookup p z = find (\<lambda>d. ds_path d = p) (datasets z)"

text \<open>Modelled from the spec: the holds on the snapshot at a full path (\<^verbatim>\<open>ZFSHolds\<close>).\<close>

definition holds_of :: "string \<Rightarrow> zfs \<Rightarrow> string list" where
  "holds_of p z = (case lookup p z of None \<Rightarrow> [] | Some d \<Rightarrow> ds_holds d)"

text \<open>
  Modelled from the spec: a dataset of the pool is a version of filesystem \<open>fs\<close>, of the
  type its delimiter gives, when its path is \<open>fs\<close>, the delimiter and a name.
\<close>

definition is_version_of :: "string \<Rightarrow> zfs_dataset \<Rightarrow> bool" where
  "is_version_of fs d =
     (case DecomposeVersionString (ds_path d) of Inl err \<Rightarrow> False | Inr (f, t, n) \<Rightarrow> f = fs)"

text \<open>Modelled from the spec: a dataset of the pool is a snapshot of filesystem \<open>fs\<close>.\<close>

definition is_snapshot_of :: "string \<Rightarrow> zfs_dataset \<Rightarrow> bool" where
  "is_snapshot_of fs d =
     (case DecomposeVersionString (ds_path d) of
        Inl err \<Rightarrow> False
      | Inr (f, t, n) \<Rightarrow> f = fs \<and> t = Snapshot)"

text \<open>Modelled from the spec: the decimal text of a number in a line of the listing.\<close>

function FormatInt :: "int \<Rightarrow> string" where
  "FormatInt n =
     (if n < 0 then CHR ''-'' # FormatInt (- n)
      else if n < 10 then [char_of (0x30 + n)]
      else FormatInt (n div 10) @ [char_of (0x30 + n mod 10)])"
  by pat_completeness auto
termination
  by (relation "measure (\<lambda>n. if n < 0 then nat (- n) + 1 else nat n)") auto

text \<open>
  Modelled from the spec: \<^verbatim>\<open>ListVersions\<close>, as the channel of \<^verbatim>\<open>ZFSListChan\<close> delivers it for
  the columns name, guid, createtxg, creation: one line for every snapshot and bookmark
  of the filesystem, sorted ascending by create\_txg.
\<close>

definition ZFSListChan :: "zfs \<Rightarrow> string \<Rightarrow> ZFSListResult list" where
  "ZFSListChan z fs =
     map (\<lambda>d. \<lparr>Fields = [ds_path d, FormatInt (uint (ds_guid d)),
                           FormatInt (uint (ds_createtxg d)), FormatInt (ds_creation d)],
                 Err = None\<rparr>)
         (sort_key ds_createtxg (filter (is_version_of fs) (datasets z)))"

text \<open>
  Modelled from the spec: \<^verbatim>\<open>GetCreateTXGAndGuid(fullPath)\<close>, the pair of create\_txg and guid,
  or the distinguishable \<^verbatim>\<open>DatasetDoesNotExist\<close>.
\<close>

definition ZFSGetCreateTXGAndGuid :: "string \<Rightarrow> zfs \<Rightarrow> error + (64 word \<times> 64 word)" where
  "ZFSGetCreateTXGAndGuid p z =
     (case lookup p z of
        None \<Rightarrow> Inl (DatasetDoesNotExist p)
      | Some d \<Rightarrow> Inr (ds_createtxg d, ds_guid d))"

text \<open>
  Modelled from the spec: \<^verbatim>\<open>zfs.ZFSSendArgVersion\<close>, the name of a version relative to its
  filesystem (\<^verbatim>\<open>@name\<close> or \<^verbatim>\<open>#name\<close>) with the guid the caller expects.
\<close>

record ZFSSendArgVersion =
  RelName :: string
  GUID :: "64 word"

text \<open>Modelled from the spec: the fully-qualified path \<^verbatim>\<open><filesystem><delim><name>\<close>.\<close>

definition FullPath :: "ZFSSendArgVersion \<Rightarrow> string \<Rightarrow> string" where
  "FullPath v fs = fs @ RelName v"

text \<open>Modelled from the spec: the type of a version is the one of its delimiter.\<close>

definition IsSnapshot :: "ZFSSendArgVersion \<Rightarrow> bool" where
  "IsSnapshot v = (case RelName v of [] \<Rightarrow> False | c # n \<Rightarrow> c = CHR ''@'')"

text \<open>Modelled from the spec: the delimiter of a bookmark is \<^verbatim>\<open>#\<close>.\<close>

definition IsBookmark :: "ZFSSendArgVersion \<Rightarrow> bool" where
  "IsBookmark v = (case RelName v of [] \<Rightarrow> False | c # n \<Rightarrow> c = CHR ''#'')"

text \<open>Modelled from the spec: "any other type: invariant violation", a panic.\<close>

definition MustBeBookmark :: "ZFSSendArgVersion \<Rightarrow> error option" where
  "MustBeBookmark v = (if IsBookmark v then None else Some (Panic ''must be bookmark''))"

text \<open>
  Modelled from the spec: "validate that the version refers to an existing version and
  fetch its create\_txg and guid": the relative name is one of a snapshot or bookmark, the
  dataset exists, and its guid is the expected one.
\<close>

definition ValidateExistsAndGetCheckedProps ::
  "ZFSSendArgVersion \<Rightarrow> string \<Rightarrow> zfs \<Rightarrow> error + (64 word \<times> 64 word)" where
  "ValidateExistsAndGetCheckedProps v fs z =
     (if \<not> IsSnapshot v \<and> \<not> IsBookmark v
      then Inl (ErrMsg ''RelName field must start with @ or #'')
      else case ZFSGetCreateTXGAndGuid (FullPath v fs) z of
             Inl err \<Rightarrow> Inl err
           | Inr (txg, g) \<Rightarrow>
               if g \<noteq> GUID v
               then Inl (ErrMsg ''GUID field does not match the GUID of the real dataset'')
               else Inr (txg, g))"

text \<open>Modelled from the spec: the validation alone, without the properties.\<close>

definition ValidateExists :: "ZFSSendArgVersion \<Rightarrow> string \<Rightarrow> zfs \<Rightarrow> error option" where
  "ValidateExists v fs z =
     (case ValidateExistsAndGetCheckedProps v fs z of Inl err \<Rightarrow> Some err | Inr props \<Rightarrow> None)"

text \<open>Modelled from the spec: a change of the holds of the dataset at a path.\<close>

definition map_holds :: "string \<Rightarrow> (string list \<Rightarrow> string list) \<Rightarrow> zfs \<Rightarrow> zfs" where
  "map_holds p f z =
     z\<lparr>datasets := map (\<lambda>d. if ds_path d = p then d\<lparr>ds_holds := f (ds_holds d)\<rparr> else d)
                        (datasets z)\<rparr>"

text \<open>
  Modelled from the spec: \<^verbatim>\<open>Hold(dataset, version, tag)\<close>. A hold is a tag on a snapshot;
  holding again with the same tag is a no-op.
\<close>

definition ZFSHold :: "string \<Rightarrow> ZFSSendArgVersion \<Rightarrow> string \<Rightarrow> zfs \<Rightarrow> error option \<times> zfs" where
  "ZFSHold fs v tag z =
     (if \<not> IsSnapshot v then (Some (ErrMsg ''can only hold snapshots''), z)
      else case lookup (FullPath v fs) z of
             None \<Rightarrow> (Some (DatasetDoesNotExist (FullPath v fs)), z)
           | Some d \<Rightarrow>
               (None, map_holds (FullPath v fs)
                        (\<lambda>hs. if tag \<in> set hs then hs else hs @ [tag]) z))"

text \<open>Modelled from the spec: \<^verbatim>\<open>Release(tag, fullPath)\<close>.\<close>

definition ZFSRelease :: "string \<Rightarrow> string \<Rightarrow> zfs \<Rightarrow> error option \<times> zfs" where
  "ZFSRelease tag p z =
     (case lookup p z of
        None \<Rightarrow> (Some (DatasetDoesNotExist p), z)
      | Some d \<Rightarrow> (None, map_holds p (removeAll tag) z))"

text \<open>
  Modelled from the spec: \<^verbatim>\<open>Bookmark(dataset, source, newName)\<close> with its idempotency
  contract. A bookmark as source fails with \<^verbatim>\<open>BookmarkCloningNotSupported\<close> on a pool
  without the feature; a destroyed source fails with \<^verbatim>\<open>DatasetDoesNotExist\<close> (also when
  the bookmark exists, as the platform test of the idempotent bookmark expects); an
  existing bookmark of the same guid is success, one of another guid \<^verbatim>\<open>BookmarkExists\<close>;
  otherwise the bookmark is created with the guid, create\_txg and creation of its source.
\<close>

definition ZFSBookmark :: "string \<Rightarrow> ZFSSendArgVersion \<Rightarrow> string \<Rightarrow> zfs \<Rightarrow> error option \<times> zfs" where
  "ZFSBookmark fs v bookmark z =
     (if \<not> IsSnapshot v \<and> \<not> bookmark_cloning z then (Some ErrBookmarkCloningNotSupported, z)
      else case lookup (FullPath v fs) z of
             None \<Rightarrow> (Some (DatasetDoesNotExist (FullPath v fs)), z)
           | Some src \<Rightarrow>
               (case lookup (fs @ ''#'' @ bookmark) z of
                  Some b \<Rightarrow>
                    if ds_guid b = GUID v then (None, z)
                    else (Some (BookmarkExists (fs @ ''#'' @ bookmark)), z)
                | None \<Rightarrow>
                    (None, z\<lparr>datasets := datasets z @
                               [\<lparr>ds_path = fs @ ''#'' @ bookmark, ds_guid = ds_guid src,
                                 ds_createtxg = ds_createtxg src, ds_creation = ds_creation src,
                                 ds_holds = []\<rparr>]\<rparr>)))"

text \<open>
  Modelled from the spec: \<^verbatim>\<open>Destroy(fullPath)\<close>. A missing dataset is \<^verbatim>\<open>DatasetDoesNotExist\<close>;
  a user hold prevents the destruction of its snapshot.
\<close>

definition ZFSDestroy :: "string \<Rightarrow> zfs \<Rightarrow> error option \<times> zfs" where
  "ZFSDestroy p z =
     (case lookup p z of
        None \<Rightarrow> (Some (DatasetDoesNotExist p), z)
      | Some d \<Rightarrow>
          if ds_holds d \<noteq> [] then (Some (ErrMsg ''dataset is busy''), z)
          else (None, z\<lparr>datasets := filter (\<lambda>d. ds_path d \<noteq> p) (datasets z)\<rparr>))"

text \<open>Modelled from the spec: \<^verbatim>\<open>DestroyIdempotent(fullPath)\<close> treats "does not exist" as success.\<close>

definition ZFSDestroyIdempotent :: "string \<Rightarrow> zfs \<Rightarrow> error option \<times> zfs" where
  "ZFSDestroyIdempotent p z =
     (case ZFSDestroy p z of
        (Some err, z') \<Rightarrow> if isDatasetDoesNotExist err then (None, z') else (Some err, z')
      | (None, z') \<Rightarrow> (None, z'))"

text \<open>
  Modelled from the spec: the batch release by create\_txg relative to the version of the
  dataset with the given guid (a bookmark has the guid and create\_txg of its snapshot).
  The "including" variant releases every hold with the tag on the snapshots whose
  create\_txg is at most the referenced one, the "older than" variant uses strict
  less-than.
\<close>

definition release_older :: "bool \<Rightarrow> string \<Rightarrow> 64 word \<Rightarrow> string \<Rightarrow> zfs \<Rightarrow> error option \<times> zfs" where
  "release_older including fs guid tag z =
     (case find (\<lambda>d. is_version_of fs d \<and> ds_guid d = guid) (datasets z) of
        None \<Rightarrow> (Some (ErrMsg ''cannot find snapshot or bookmark with guid''), z)
      | Some ref \<Rightarrow>
          (None,
           z\<lparr>datasets :=
               map (\<lambda>d. if is_snapshot_of fs d \<and>
                            (if including then ds_createtxg d \<le> ds_createtxg ref
                             else ds_createtxg d < ds_createtxg ref)
                         then d\<lparr>ds_holds := removeAll tag (ds_holds d)\<rparr> else d)
                   (datasets z)\<rparr>))"

text \<open>Modelled from the spec: \<^verbatim>\<open>ReleaseAllOlderAndIncludingGUID(dataset, guid, tag)\<close>.\<close>

definition ZFSReleaseAllOlderAndIncludingGUID ::
  "string \<Rightarrow> 64 word \<Rightarrow> string \<Rightarrow> zfs \<Rightarrow> error option \<times> zfs" where
  "ZFSReleaseAllOlderAndIncludingGUID fs guid tag z = release_older True fs guid tag z"

text \<open>Modelled from the spec: \<^verbatim>\<open>ReleaseAllOlderThanGUID(dataset, guid, tag)\<close>.\<close>

definition ZFSReleaseAllOlderThanGUID ::
  "string \<Rightarrow> 64 word \<Rightarrow> string \<Rightarrow> zfs \<Rightarrow> error option \<times> zfs" where
  "ZFSReleaseAllOlderThanGUID fs guid tag z = release_older False fs guid tag z"

subsection \<open>endpoint/endpoint\_zfs.go: the progress marker engine\<close>

text \<open>
  An operation on the pool takes the state of the pool as its last argument and returns
  the error (\<open>None\<close> for nil) with the state it leaves behind.
\<close>

definition SetReplicationCursor :: "string \<Rightarrow> ZFSSendArgVersion \<Rightarrow> zfs \<Rightarrow> error option \<times> zfs" where
  "SetReplicationCursor fs target z =
     (if length fs = 0 then (Some (ErrMsg ''filesystem name must not be empty''), z)
      else
        case ValidateExistsAndGetCheckedProps target fs z of
          Inl err \<Rightarrow> (Some (errors_Wrap err ''invalid replication cursor target''), z)
        | Inr snapProps \<Rightarrow>
            let bookmarkPath = fs @ ''#'' @ ReplicationCursorBookmarkName;
                create = (\<lambda>z1.
                  case ZFSBookmark fs target ReplicationCursorBookmarkName z1 of
                    (Some err, z2) \<Rightarrow>
                      if err = ErrBookmarkCloningNotSupported then (Some err, z2)
                      else (Some (errors_Wrap err ''cannot create bookmark''), z2)
                  | (None, z2) \<Rightarrow> (None, z2))
            in case ZFSGetCreateTXGAndGuid bookmarkPath z of
                 Inl err \<Rightarrow>
                   if \<not> isDatasetDoesNotExist err
                   then (Some (errors_Wrap err ''cannot get bookmark txg''), z)
                   else create z
               | Inr bookmarkProps \<Rightarrow>
                   if fst snapProps < fst bookmarkProps
                   then (Some (ErrMsg ''can only be advanced, not set back''), z)
                   else if snd bookmarkProps = snd snapProps then (None, z)
                   else (case ZFSDestroy bookmarkPath z of
                           (Some err, z1) \<Rightarrow>
                             (Some (errors_Wrap err ''cannot destroy current cursor to move it to new''), z1)
                         | (None, z1) \<Rightarrow> create z1))"

text \<open>The path of the cursor bookmark of a filesystem, \<^verbatim>\<open>bookmarkPath\<close> in \<open>SetReplicationCursor\<close>.\<close>

definition bookmarkPath :: "string \<Rightarrow> string" where
  "bookmarkPath fs = fs @ ''#'' @ ReplicationCursorBookmarkName"

definition HoldStep ::
  "zfs_rules \<Rightarrow> string \<Rightarrow> ZFSSendArgVersion \<Rightarrow> JobID \<Rightarrow> zfs \<Rightarrow> error option \<times> zfs" where
  "HoldStep R fs v jobID z =
     (case ValidateExists v fs z of
        Some err \<Rightarrow> (Some err, z)
      | None \<Rightarrow>
          if IsSnapshot v then
            (case StepHoldTag R jobID of
               Inl err \<Rightarrow> (Some (errors_Wrap err ''step hold tag''), z)
             | Inr tag \<Rightarrow>
                 (case ZFSHold fs v tag z of
                    (Some err, z1) \<Rightarrow> (Some (errors_Wrap err ''step hold: zfs''), z1)
                  | (None, z1) \<Rightarrow> (None, z1)))
          else
            (case MustBeBookmark v of
               Some p \<Rightarrow> (Some p, z)
             | None \<Rightarrow>
                 (case StepBookmarkName R fs (GUID v) jobID of
                    Inl err \<Rightarrow>
                      (Some (errors_Wrap err ''create step bookmark: determine bookmark name''), z)
                  | Inr bmname \<Rightarrow>
                      (case ZFSBookmark fs v bmname z of
                         (Some err, z1) \<Rightarrow>
                           if err = ErrBookmarkCloningNotSupported then (Some err, z1)
                           else (Some (errors_Wrap err ''create step bookmark: zfs''), z1)
                       | (None, z1) \<Rightarrow> (None, z1)))))"

definition ReleaseStep ::
  "zfs_rules \<Rightarrow> string \<Rightarrow> ZFSSendArgVersion \<Rightarrow> JobID \<Rightarrow> zfs \<Rightarrow> error option \<times> zfs" where
  "ReleaseStep R fs v jobID z =
     (case ValidateExists v fs z of
        Some err \<Rightarrow> (Some err, z)
      | None \<Rightarrow>
          if IsSnapshot v then
            (case StepHoldTag R jobID of
               Inl err \<Rightarrow> (Some (errors_Wrap err ''step release tag''), z)
             | Inr tag \<Rightarrow>
                 (case ZFSRelease tag (FullPath v fs) z of
                    (Some err, z1) \<Rightarrow> (Some (errors_Wrap err ''step release: zfs''), z1)
                  | (None, z1) \<Rightarrow> (None, z1)))
          else
            (case MustBeBookmark v of
               Some p \<Rightarrow> (Some p, z)
             | None \<Rightarrow>
                 (case StepBookmarkName R fs (GUID v) jobID of
                    Inl err \<Rightarrow>
                      (Some (errors_Wrap err ''step release: determine bookmark name''), z)
                  | Inr bmname \<Rightarrow>
                      (case ZFSDestroyIdempotent bmname z of
                         (Some err, z1) \<Rightarrow>
                           (Some (errors_Wrap err ''step release: bookmark destroy: zfs''), z1)
                       | (None, z1) \<Rightarrow> (None, z1)))))"

text \<open>The closure that \<open>ReleaseStepAll\<close> passes to the listing as its filter.\<close>

definition stepBookmarkFilter :: "zfs_rules \<Rightarrow> string \<Rightarrow> JobID \<Rightarrow> FilesystemVersionFilter" where
  "stepBookmarkFilter R fs jobID t name =
     (case ParseStepBookmarkName R (fs @ ''#'' @ name) of
        Inl parseErr \<Rightarrow> (False, None)
      | Inr (g, parsedId) \<Rightarrow> (t = Bookmark \<and> parsedId = jobID, None))"

text \<open>The loop that destroys the collected step bookmarks one by one.\<close>

fun destroy_loop :: "string \<Rightarrow> FilesystemVersion list \<Rightarrow> zfs \<Rightarrow> error option \<times> zfs" where
  "destroy_loop fsp [] z = (None, z)"
| "destroy_loop fsp (v # vs) z =
     (case ZFSDestroyIdempotent (ToAbsPath v fsp) z of
        (Some err, z1) \<Rightarrow> (Some (errors_Wrap err ''step release all: destroy step bookmark''), z1)
      | (None, z1) \<Rightarrow> destroy_loop fsp vs z1)"

definition ReleaseStepAll ::
  "zfs_rules \<Rightarrow> string \<Rightarrow> ZFSSendArgVersion \<Rightarrow> JobID \<Rightarrow> zfs \<Rightarrow> error option \<times> zfs" where
  "ReleaseStepAll R fs mostRecent jobID z =
     (case NewDatasetPath R fs of
        Some err \<Rightarrow> (Some (errors_Wrap err ''step release all: invalid filesystem path''), z)
      | None \<Rightarrow>
     (case ValidateExistsAndGetCheckedProps mostRecent fs z of
        Inl err \<Rightarrow>
          (Some (errors_Wrap err ''step release all: validate most recent version argument''), z)
      | Inr mostRecentProps \<Rightarrow>
     (case StepHoldTag R jobID of
        Inl err \<Rightarrow> (Some (errors_Wrap err ''step release all: tag''), z)
      | Inr tag \<Rightarrow>
     (case ZFSReleaseAllOlderAndIncludingGUID fs (GUID mostRecent) tag z of
        (Some err, z1) \<Rightarrow>
          (Some (errors_Wrap err ''step release all: release holds older and including''), z1)
      | (None, z1) \<Rightarrow>
     (case ZFSListFilesystemVersions (ZFSListChan z1) fs (Some (stepBookmarkFilter R fs jobID)) of
        Inl err \<Rightarrow> (Some (errors_Wrap err ''step release all: list step bookmarks''), z1)
      | Inr stepBookmarks \<Rightarrow>
          if list_ex (\<lambda>v. isl (ParseStepBookmarkName R (fs @ ''#'' @ Name v))) stepBookmarks
          then (Some (Panic ''implementation error: filter should guarantee we only have step bookmarks in results''), z1)
          else destroy_loop fs
                 (filter (\<lambda>v. CreateTXG v < fst mostRecentProps) stepBookmarks) z1)))))"

text \<open>
  \<open>MoveLastReceivedHold\<close> returns, with the error, the states of the pool after each of its
  calls that change the pool, in the order of the calls: the empty list when it returns
  before the first of them.
\<close>

definition MoveLastReceivedHold ::
  "zfs_rules \<Rightarrow> string \<Rightarrow> ZFSSendArgVersion \<Rightarrow> JobID \<Rightarrow> zfs \<Rightarrow> error option \<times> zfs list" where
  "MoveLastReceivedHold R fs to jobID z =
     (case ValidateExists to fs z of
        Some err \<Rightarrow> (Some err, [])
      | None \<Rightarrow>
     (case EntityNamecheck R (FullPath to fs) EntityTypeSnapshot of
        Some err \<Rightarrow> (Some err, [])
      | None \<Rightarrow>
     (case LastReceivedHoldTag R jobID of
        Inl err \<Rightarrow> (Some (errors_Wrap err ''last-received-hold: hold tag''), [])
      | Inr tag \<Rightarrow>
     (case ZFSHold fs to tag z of
        (Some err, z1) \<Rightarrow> (Some (errors_Wrap err ''last-received-hold: hold newly received''), [z1])
      | (None, z1) \<Rightarrow>
     (case ZFSReleaseAllOlderThanGUID fs (GUID to) tag z1 of
        (Some err, z2) \<Rightarrow>
          (Some (errors_Wrap err ''last-received-hold: release older holds''), [z1, z2])
      | (None, z2) \<Rightarrow> (None, [z1, z2]))))))"

subsection \<open>An instance of the name rules, and pools to run the code on\<close>

text \<open>
  Modelled from the spec: the legal character set of a ZFS name. The specification names
  the set without listing it; ZFS's own is taken: letters, digits, \<^verbatim>\<open>-\<close>, \<^verbatim>\<open>_\<close>, \<^verbatim>\<open>.\<close>, \<^verbatim>\<open>:\<close>
  and the space that the platform tests use in \<^verbatim>\<open>foo bar\<close>.
\<close>

definition legal_char :: "char \<Rightarrow> bool" where
  "legal_char c \<longleftrightarrow>
     between 0x30 0x39 (of_char c) \<or> between 0x41 0x5A (of_char c) \<or>
     between 0x61 0x7A (of_char c) \<or> c \<in> set ''-_.: ''"

text \<open>
  Modelled from the spec: the components of a path between its slashes; a legal dataset
  path is non-empty, without consecutive slashes and without a trailing slash (no
  component is empty), over the legal character set.
\<close>

fun components :: "string \<Rightarrow> string \<Rightarrow> string list" where
  "components [] cur = [cur]"
| "components (c # cs) cur =
     (if c = CHR ''/'' then cur # components cs [] else components cs (cur @ [c]))"

text \<open>Modelled from the spec: a legal dataset path, by its components.\<close>

definition legal_path :: "string \<Rightarrow> bool" where
  "legal_path s \<longleftrightarrow> list_all (\<lambda>comp. comp \<noteq> [] \<and> list_all legal_char comp) (components s [])"

text \<open>
  Modelled from the spec: the name rules as far as the specification states them. A
  dataset path is legal as above; the fully-qualified path of a snapshot is a legal
  dataset path, \<^verbatim>\<open>@\<close> and a name, the one of a bookmark has \<^verbatim>\<open>#\<close>; the rule for hold tags is
  not stated, and the instance accepts the non-empty tags of at most 255 bytes.
\<close>

definition legal_entity :: "string \<Rightarrow> EntityType \<Rightarrow> bool" where
  "legal_entity p t =
     (case t of
        EntityTypeSnapshot \<Rightarrow>
          (case DecomposeVersionString p of
             Inr (fs, Snapshot, n) \<Rightarrow> legal_path fs \<and> n \<noteq> [] \<and> list_all legal_char n
           | _ \<Rightarrow> False)
      | EntityTypeBookmark \<Rightarrow>
          (case DecomposeVersionString p of
             Inr (fs, Bookmark, n) \<Rightarrow> legal_path fs \<and> n \<noteq> [] \<and> list_all legal_char n
           | _ \<Rightarrow> False)
      | _ \<Rightarrow> legal_path p)"

text \<open>Modelled from the spec: the three name rules together.\<close>

definition spec_rules :: zfs_rules where
  "spec_rules =
     \<lparr>EntityNamecheck = (\<lambda>p t. if legal_entity p t then None else Some (ErrMsg ''invalid name'')),
      NewDatasetPath = (\<lambda>s. if legal_path s then None else Some (ErrMsg ''invalid dataset path'')),
      ValidHoldTag = (\<lambda>t. if t \<noteq> [] \<and> length t \<le> 255 then None
                           else Some (ErrMsg ''invalid hold tag''))\<rparr>"

text \<open>
  Pools to run the code on. \<open>dataset p g t hs\<close> is the snapshot or bookmark at path \<open>p\<close>
  with guid \<open>g\<close>, create\_txg \<open>t\<close> and the holds \<open>hs\<close>.
\<close>

definition dataset :: "string \<Rightarrow> 64 word \<Rightarrow> 64 word \<Rightarrow> string list \<Rightarrow> zfs_dataset" where
  "dataset p g t hs =
     \<lparr>ds_path = p, ds_guid = g, ds_createtxg = t, ds_creation = 1583020800, ds_holds = hs\<rparr>"

text \<open>
  The filesystem \<^verbatim>\<open>tank/fs\<close> with the snapshots \<^verbatim>\<open>@a\<close> (create\_txg 100) and \<^verbatim>\<open>@b\<close>
  (create\_txg 200) and a bookmark \<^verbatim>\<open>#bm\<close> of \<^verbatim>\<open>@b\<close>, on a pool that cannot bookmark a
  bookmark: without a replication cursor, with the cursor at \<^verbatim>\<open>@a\<close>, and with it at \<^verbatim>\<open>@b\<close>.
\<close>

definition pool_no_cursor :: zfs where
  "pool_no_cursor =
     \<lparr>datasets = [dataset ''tank/fs@a'' 11 100 [], dataset ''tank/fs@b'' 12 200 [],
                  dataset ''tank/fs#bm'' 12 200 []],
      bookmark_cloning = False\<rparr>"

definition pool_cursor_a :: zfs where
  "pool_cursor_a =
     \<lparr>datasets = [dataset ''tank/fs@a'' 11 100 [], dataset ''tank/fs@b'' 12 200 [],
                  dataset ''tank/fs#bm'' 12 200 [],
                  dataset ''tank/fs#zrepl_replication_cursor'' 11 100 []],
      bookmark_cloning = False\<rparr>"

definition pool_cursor_b :: zfs where
  "pool_cursor_b =
     \<lparr>datasets = [dataset ''tank/fs@a'' 11 100 [], dataset ''tank/fs@b'' 12 200 [],
                  dataset ''tank/fs#bm'' 12 200 [],
                  dataset ''tank/fs#zrepl_replication_cursor'' 12 200 []],
      bookmark_cloning = False\<rparr>"

definition version_a :: ZFSSendArgVersion where
  "version_a = \<lparr>RelName = ''@a'', GUID = 11\<rparr>"

definition version_b :: ZFSSendArgVersion where
  "version_b = \<lparr>RelName = ''@b'', GUID = 12\<rparr>"

definition version_bm :: ZFSSendArgVersion where
  "version_bm = \<lparr>RelName = ''#bm'', GUID = 12\<rparr>"

text \<open>
  The filesystem of the roll-up scenario: snapshots \<^verbatim>\<open>@1\<close> to \<^verbatim>\<open>@6\<close> with create\_txg 1 to
  6; the step hold of job \<open>myjob\<close> on \<^verbatim>\<open>@1\<close>, \<^verbatim>\<open>@3\<close>, \<^verbatim>\<open>@5\<close> and \<^verbatim>\<open>@6\<close>; foreign tags on \<^verbatim>\<open>@2\<close>
  and \<^verbatim>\<open>@5\<close>; the step bookmarks of \<open>myjob\<close> for \<^verbatim>\<open>@2\<close> and \<^verbatim>\<open>@5\<close>, and a foreign bookmark.
\<close>

definition pool_steps :: zfs where
  "pool_steps =
     \<lparr>datasets =
        [dataset ''tank/fs@1'' 101 1 [''zrepl_STEP_J_myjob''],
         dataset ''tank/fs@2'' 102 2 [''zrepl_platformtest_2''],
         dataset ''tank/fs@3'' 103 3 [''zrepl_STEP_J_myjob''],
         dataset ''tank/fs@4'' 104 4 [],
         dataset ''tank/fs@5'' 105 5 [''zrepl_STEP_J_myjob'', ''zrepl_STEP_J_other''],
         dataset ''tank/fs@6'' 106 6 [''zrepl_STEP_J_myjob''],
         dataset ''tank/fs#zrepl_STEP_G_0000000000000066_J_myjob'' 102 2 [],
         dataset ''tank/fs#zrepl_STEP_G_0000000000000069_J_myjob'' 105 5 [],
         dataset ''tank/fs#some_other_bookmark'' 101 1 []],
      bookmark_cloning = False\<rparr>"

definition version_5 :: ZFSSendArgVersion where
  "version_5 = \<lparr>RelName = ''@5'', GUID = 105\<rparr>"

text \<open>
  The filesystem of a step from a bookmark: the bookmark \<^verbatim>\<open>#b\<close> with guid \<open>0xdeadbeef\<close> and
  the step bookmark of job \<open>myjob\<close> for it, as \<open>HoldStep\<close> creates it.
\<close>

definition pool_step_bookmark :: zfs where
  "pool_step_bookmark =
     \<lparr>datasets =
        [dataset ''tank/fs#b'' 0xdeadbeef 7 [],
         dataset ''tank/fs#zrepl_STEP_G_00000000deadbeef_J_myjob'' 0xdeadbeef 7 []],
      bookmark_cloning = True\<rparr>"

definition version_bookmark_b :: ZFSSendArgVersion where
  "version_bookmark_b = \<lparr>RelName = ''#b'', GUID = 0xdeadbeef\<rparr>"

text \<open>
  The filesystem of a receiving side: snapshots \<^verbatim>\<open>@1\<close> to \<^verbatim>\<open>@3\<close>, the last-received hold
  of job \<open>myjob\<close> on \<^verbatim>\<open>@1\<close> and \<^verbatim>\<open>@2\<close>, a foreign hold on \<^verbatim>\<open>@1\<close>.
\<close>

definition pool_received :: zfs where
  "pool_received =
     \<lparr>datasets =
        [dataset ''tank/fs@1'' 101 1 [''zrepl_last_received_J_myjob'', ''keep''],
         dataset ''tank/fs@2'' 102 2 [''zrepl_last_received_J_myjob''],
         dataset ''tank/fs@3'' 103 3 [],
         dataset ''tank/fs#bm'' 102 2 []],
      bookmark_cloning = False\<rparr>"

definition version_3 :: ZFSSendArgVersion where
  "version_3 = \<lparr>RelName = ''@3'', GUID = 103\<rparr>"

definition version_received_bm :: ZFSSendArgVersion where
  "version_received_bm = \<lparr>RelName = ''#bm'', GUID = 102\<rparr>"

section \<open>Properties\<close>

subsection \<open>Splitting a version string\<close>

lemma SplitN2_length: "length (SplitN2 v sep) = (if sep \<in> set v then 2 else 1)"
  by (simp add: SplitN2_def)

lemma split_first_occurrence:
  assumes "sep \<in> set v"
  shows "v = takeWhile (\<lambda>c. c \<noteq> sep) v @ sep # tl (dropWhile (\<lambda>c. c \<noteq> sep) v)"
proof -
  from assms have ne: "dropWhile (\<lambda>c. c \<noteq> sep) v \<noteq> []"
    by (simp add: dropWhile_eq_Nil_conv)
  then have "hd (dropWhile (\<lambda>c. c \<noteq> sep) v) = sep"
    using hd_dropWhile [of "\<lambda>c. c \<noteq> sep" v] by simp
  with ne have "dropWhile (\<lambda>c. c \<noteq> sep) v = sep # tl (dropWhile (\<lambda>c. c \<noteq> sep) v)"
    by (cases "dropWhile (\<lambda>c. c \<noteq> sep) v") simp_all
  then show ?thesis
    using takeWhile_dropWhile_id [of "\<lambda>c. c \<noteq> sep" v] by simp
qed

lemma takeWhile_no_sep: "sep \<notin> set (takeWhile (\<lambda>c. c \<noteq> sep) v)"
  by (auto dest: set_takeWhileD)

text \<open>
  C8. \<open>DecomposeVersionString s\<close> fails when \<open>s\<close> is shorter than 3 characters (bytes, as
  Go's \<^verbatim>\<open>len\<close> counts them), fails when \<open>s\<close> contains both \<open>@\<close> and \<open>#\<close> or neither, and
  otherwise splits \<open>s\<close> at the first occurrence of the delimiter that is present: the
  prefix is the filesystem, the type is snapshot for \<open>@\<close> and bookmark for \<open>#\<close>, and the
  remainder is the name.
\<close>

theorem DecomposeVersionString_spec:
  "(length s < 3 \<longrightarrow> isl (DecomposeVersionString s)) \<and>
   ((CHR ''@'' \<in> set s) = (CHR ''#'' \<in> set s) \<longrightarrow> isl (DecomposeVersionString s)) \<and>
   (3 \<le> length s \<and> CHR ''@'' \<in> set s \<and> CHR ''#'' \<notin> set s \<longrightarrow>
      (\<exists>fs name. s = fs @ CHR ''@'' # name \<and> CHR ''@'' \<notin> set fs \<and>
                 DecomposeVersionString s = Inr (fs, Snapshot, name))) \<and>
   (3 \<le> length s \<and> CHR ''#'' \<in> set s \<and> CHR ''@'' \<notin> set s \<longrightarrow>
      (\<exists>fs name. s = fs @ CHR ''#'' # name \<and> CHR ''#'' \<notin> set fs \<and>
                 DecomposeVersionString s = Inr (fs, Bookmark, name)))"
proof (intro conjI impI)
  assume "length s < 3"
  then show "isl (DecomposeVersionString s)"
    by (simp add: DecomposeVersionString_def)
next
  assume "(CHR ''@'' \<in> set s) = (CHR ''#'' \<in> set s)"
  then show "isl (DecomposeVersionString s)"
    by (simp add: DecomposeVersionString_def Let_def SplitN2_length)
next
  assume a: "3 \<le> length s \<and> CHR ''@'' \<in> set s \<and> CHR ''#'' \<notin> set s"
  let ?fs = "takeWhile (\<lambda>c. c \<noteq> CHR ''@'') s"
  let ?name = "tl (dropWhile (\<lambda>c. c \<noteq> CHR ''@'') s)"
  from a have "s = ?fs @ CHR ''@'' # ?name"
    using split_first_occurrence [of "CHR ''@''" s] by simp
  moreover have "CHR ''@'' \<notin> set ?fs"
    by (rule takeWhile_no_sep)
  moreover from a have "DecomposeVersionString s = Inr (?fs, Snapshot, ?name)"
    by (simp add: DecomposeVersionString_def Let_def SplitN2_def)
  ultimately show "\<exists>fs name. s = fs @ CHR ''@'' # name \<and> CHR ''@'' \<notin> set fs \<and>
      DecomposeVersionString s = Inr (fs, Snapshot, name)"
    by blast
next
  assume a: "3 \<le> length s \<and> CHR ''#'' \<in> set s \<and> CHR ''@'' \<notin> set s"
  let ?fs = "takeWhile (\<lambda>c. c \<noteq> CHR ''#'') s"
  let ?name = "tl (dropWhile (\<lambda>c. c \<noteq> CHR ''#'') s)"
  from a have "s = ?fs @ CHR ''#'' # ?name"
    using split_first_occurrence [of "CHR ''#''" s] by simp
  moreover have "CHR ''#'' \<notin> set ?fs"
    by (rule takeWhile_no_sep)
  moreover from a have "DecomposeVersionString s = Inr (?fs, Bookmark, ?name)"
    by (simp add: DecomposeVersionString_def Let_def SplitN2_def)
  ultimately show "\<exists>fs name. s = fs @ CHR ''#'' # name \<and> CHR ''#'' \<notin> set fs \<and>
      DecomposeVersionString s = Inr (fs, Bookmark, name)"
    by blast
qed

theorem DecomposeVersionString_spec_witness:
  "isl (DecomposeVersionString ''a@'') \<and>
   isl (DecomposeVersionString ''tank/fs@a#b'') \<and>
   isl (DecomposeVersionString ''tank/fs'') \<and>
   DecomposeVersionString ''tank/fs@s1@x'' = Inr (''tank/fs'', Snapshot, ''s1@x'') \<and>
   DecomposeVersionString ''tank/fs#b1'' = Inr (''tank/fs'', Bookmark, ''b1'')"
  using DecomposeVersionString_spec [of "''a@''"]
    DecomposeVersionString_spec [of "''tank/fs@a#b''"]
    DecomposeVersionString_spec [of "''tank/fs''"]
    DecomposeVersionString_spec [of "''tank/fs@s1@x''"]
    DecomposeVersionString_spec [of "''tank/fs#b1''"]
  by (simp add: DecomposeVersionString_def SplitN2_def)

subsection \<open>The scanner reads a step bookmark name from its first byte\<close>

lemma DecodeRune_ascii:
  assumes "DecodeRune (b # bs) = (r, n)" and "r < 0x80"
  shows "r = b \<and> n = 1"
proof (cases "b < 0x80")
  case True
  with assms show ?thesis by simp
next
  case False
  with assms(1) have "0x80 \<le> r"
    by (auto simp: between_def RuneError_def split: if_splits list.splits)
  with assms(2) show ?thesis by simp
qed

lemma runes_ascii_head:
  assumes "runes (b # bs) = (r, w) # rs" and "r < 0x80"
  shows "r = b \<and> rs = runes bs"
proof -
  obtain r' n where d: "DecodeRune (b # bs) = (r', n)" by (cases "DecodeRune (b # bs)")
  with assms(1) have "r' = r" and rs: "rs = runes (drop (n - 1) bs)" by simp_all
  with d assms(2) have "r = b \<and> n = 1" using DecodeRune_ascii by blast
  with rs show ?thesis by simp
qed

lemma advance_ascii:
  assumes "advance lit (runes bs) = Inr rest" and "\<forall>c \<in> set lit. of_char c < (0x80 :: int)"
  shows "\<exists>bs'. bs = map of_char lit @ bs' \<and> rest = runes bs'"
  using assms
proof (induction lit arbitrary: bs)
  case Nil
  then show ?case by simp
next
  case (Cons c cs)
  show ?case
  proof (cases bs)
    case Nil
    with Cons.prems show ?thesis by simp
  next
    case (Cons b bs1)
    obtain r w rs where rw: "runes (b # bs1) = (r, w) # rs"
      by (cases "DecodeRune (b # bs1)") simp
    from Cons.prems(1) \<open>bs = b # bs1\<close> rw have eq: "r = of_char c" and adv: "advance cs rs = Inr rest"
      by (simp_all split: if_splits)
    from Cons.prems(2) eq have "r < 0x80" by simp
    with rw have "r = b" and "rs = runes bs1" using runes_ascii_head by blast+
    with adv Cons.IH [of bs1] Cons.prems(2) obtain bs' where "bs1 = map of_char cs @ bs'" "rest = runes bs'"
      by auto
    with \<open>bs = b # bs1\<close> \<open>r = b\<close> eq show ?thesis by simp
  qed
qed

lemma Sscanf_zrepl_STEP_prefix:
  assumes "Sscanf_zrepl_STEP name = Inr r"
  shows "take 13 name = ''zrepl_STEP_G_''"
proof -
  from assms obtain i1 where "advance ''zrepl_STEP_G_'' (runes (map of_char name)) = Inr i1"
    by (auto simp: Sscanf_zrepl_STEP_def split: sum.splits)
  then obtain bs' where "map of_char name = map of_char ''zrepl_STEP_G_'' @ (bs' :: int list)"
    using advance_ascii [of "''zrepl_STEP_G_''" "map of_char name" i1] by auto
  then have "take 13 (map (of_char :: char \<Rightarrow> int) name) = map of_char ''zrepl_STEP_G_''"
    by simp
  then have "map (of_char :: char \<Rightarrow> int) (take 13 name) = map of_char ''zrepl_STEP_G_''"
    by (simp add: take_map)
  moreover have "inj (of_char :: char \<Rightarrow> int)"
    by (rule injI) simp
  ultimately show ?thesis
    using inj_map_eq_map by blast
qed

lemma ParseStepBookmarkName_prefix:
  "ParseStepBookmarkName R name = Inr r \<Longrightarrow> take 13 name = ''zrepl_STEP_G_''"
  by (auto simp: ParseStepBookmarkName_def split: option.splits sum.splits dest: Sscanf_zrepl_STEP_prefix)

lemma Sscanf_full_name:
  "Sscanf_zrepl_STEP ''tank/fs#zrepl_STEP_G_00000000deadbeef_J_myjob''
     = Inl (ErrMsg ''input does not match format'')"
  by code_simp

lemma Sscanf_other_bookmark:
  "Sscanf_zrepl_STEP ''tank/fs#some_other_bookmark'' = Inl (ErrMsg ''input does not match format'')"
  by code_simp

lemma Sscanf_empty_job:
  "Sscanf_zrepl_STEP ''tank/fs#zrepl_STEP_G_0000000000000000_J_''
     = Inl (ErrMsg ''input does not match format'')"
  by code_simp

lemma Sscanf_bare_name:
  "Sscanf_zrepl_STEP ''zrepl_STEP_G_00000000deadbeef_J_myjob'' = Inr (0xdeadbeef, ''myjob'')"
  by code_simp

lemma ParseStepBookmarkName_Sscanf_error:
  "Sscanf_zrepl_STEP name = Inl err \<Longrightarrow> isl (ParseStepBookmarkName R name)"
  by (simp add: ParseStepBookmarkName_def split: option.split)

text \<open>
  C4 (the code differs from the claim). \<open>ParseStepBookmarkName\<close> is given the full name of
  a bookmark, \<^verbatim>\<open>tank/fs#zrepl_STEP_G_00000000deadbeef_J_myjob\<close>, and fails on it whatever
  the name rules are: \<^verbatim>\<open>Sscanf\<close> matches its format from the first byte of the full name,
  where the dataset path stands. The two strangers of the scenario fail as well. The
  format itself reads guid \<open>0xdeadbeef\<close> and job \<open>myjob\<close> from the name without the path.
\<close>

theorem ParseStepBookmarkName_full_name_fails:
  "isl (ParseStepBookmarkName R ''tank/fs#zrepl_STEP_G_00000000deadbeef_J_myjob'') \<and>
   isl (ParseStepBookmarkName R ''tank/fs#some_other_bookmark'') \<and>
   isl (ParseStepBookmarkName R ''tank/fs#zrepl_STEP_G_0000000000000000_J_'') \<and>
   Sscanf_zrepl_STEP ''zrepl_STEP_G_00000000deadbeef_J_myjob'' = Inr (0xdeadbeef, ''myjob'')"
  using ParseStepBookmarkName_Sscanf_error [OF Sscanf_full_name]
    ParseStepBookmarkName_Sscanf_error [OF Sscanf_other_bookmark]
    ParseStepBookmarkName_Sscanf_error [OF Sscanf_empty_job]
    Sscanf_bare_name
  by blast

subsection \<open>Round trips of the codec\<close>

lemma match_literal_append: "match_literal l (l @ s) = Some s"
  by (induction l) simp_all

lemma String_JobID: "s \<noteq> [] \<Longrightarrow> String (JobID s) = Inr s"
  by (simp add: String_def expectInitialized_def)

lemma MakeJobID_Inr:
  "MakeJobID R s = Inr j \<longleftrightarrow> s \<noteq> [] \<and> NewDatasetPath R s = None \<and> j = JobID s"
  by (auto simp: MakeJobID_def split: option.splits)

text \<open>
  The two hold tags: for a job id that \<open>MakeJobID\<close> accepts and that has no newline in
  it, decoding the tag that the encoder returns yields the job id again.
\<close>

lemma StepHoldTag_round_trip:
  assumes "MakeJobID R s = Inr j" and "newline \<notin> set s" and "StepHoldTag R j = Inr t"
  shows "ParseStepHoldTag R t = Inr j"
proof -
  from assms(1) have s: "s \<noteq> []" "NewDatasetPath R s = None" "j = JobID s"
    by (simp_all add: MakeJobID_Inr)
  with assms(3) have t: "t = ''zrepl_STEP_J_'' @ s"
    by (auto simp: StepHoldTag_def String_JobID Let_def split: option.splits)
  from assms(2) have tw: "takeWhile (\<lambda>c. c \<noteq> newline) s = s"
    by (auto simp: takeWhile_eq_all_conv)
  from s have "stepHoldTagRE t = Some [t, s]"
    unfolding t stepHoldTagRE_def match_literal_append by (simp add: Let_def tw)
  with assms(1) show ?thesis
    by (simp add: ParseStepHoldTag_def)
qed

lemma LastReceivedHoldTag_round_trip:
  assumes "MakeJobID R s = Inr j" and "newline \<notin> set s" and "LastReceivedHoldTag R j = Inr t"
  shows "ParseLastReceivedHoldTag R t = Inr j"
proof -
  from assms(1) have s: "s \<noteq> []" "NewDatasetPath R s = None" "j = JobID s"
    by (simp_all add: MakeJobID_Inr)
  with assms(3) have t: "t = ''zrepl_last_received_J_'' @ s"
    by (auto simp: LastReceivedHoldTag_def String_JobID Let_def split: option.splits)
  from s assms(2) have "lastReceivedHoldTagRE t = Some [t, s]"
    unfolding t lastReceivedHoldTagRE_def match_literal_append by simp
  with assms(1) show ?thesis
    by (simp add: ParseLastReceivedHoldTag_def)
qed

lemma StepBookmarkName_deadbeef:
  "StepBookmarkName spec_rules ''tank/fs'' 0xdeadbeef (JobID ''myjob'')
     = Inr ''zrepl_STEP_G_00000000deadbeef_J_myjob''"
  by code_simp

lemma spec_rules_accept_full_name:
  "EntityNamecheck spec_rules ''tank/fs#zrepl_STEP_G_00000000deadbeef_J_myjob'' EntityTypeBookmark
     = None"
  by code_simp

text \<open>
  C5 (the code differs from the claim). For the filesystem \<^verbatim>\<open>tank/fs\<close>, the guid
  \<open>0xdeadbeef\<close> and the job \<open>myjob\<close>, which \<open>MakeJobID\<close> accepts, the encoder returns the name
  \<^verbatim>\<open>zrepl_STEP_G_00000000deadbeef_J_myjob\<close>, and \<open>ParseStepBookmarkName\<close> on the full name of
  that bookmark does not return the guid and the job: it fails with the error of the
  scanner, although the name rules accept the full name.
\<close>

theorem StepBookmarkName_no_round_trip:
  "MakeJobID spec_rules ''myjob'' = Inr (JobID ''myjob'') \<and>
   StepBookmarkName spec_rules ''tank/fs'' 0xdeadbeef (JobID ''myjob'')
     = Inr ''zrepl_STEP_G_00000000deadbeef_J_myjob'' \<and>
   ParseStepBookmarkName spec_rules (''tank/fs'' @ ''#'' @ ''zrepl_STEP_G_00000000deadbeef_J_myjob'')
     = Inl (Wrap (ErrMsg ''input does not match format'')
              ''step boomark name does not match format string'')"
proof (intro conjI)
  show "MakeJobID spec_rules ''myjob'' = Inr (JobID ''myjob'')"
    by code_simp
  show "StepBookmarkName spec_rules ''tank/fs'' 0xdeadbeef (JobID ''myjob'')
          = Inr ''zrepl_STEP_G_00000000deadbeef_J_myjob''"
    by (rule StepBookmarkName_deadbeef)
  show "ParseStepBookmarkName spec_rules (''tank/fs'' @ ''#'' @ ''zrepl_STEP_G_00000000deadbeef_J_myjob'')
          = Inl (Wrap (ErrMsg ''input does not match format'')
                   ''step boomark name does not match format string'')"
    using spec_rules_accept_full_name Sscanf_full_name
    by (simp add: ParseStepBookmarkName_def errors_Wrap_def)
qed

subsection \<open>Job identifiers\<close>

text \<open>
  C9 (the code differs from the claim). \<open>MakeJobID\<close> rejects the empty string and
  otherwise succeeds exactly when \<open>NewDatasetPath\<close> accepts the string as a dataset path.
  The rule for hold tags has no part in it: the result is the same whatever
  \<open>ValidHoldTag\<close> is, and a tag encoder can fail on a constructed \<open>JobID\<close>.
\<close>

theorem MakeJobID_checks_dataset_path_only:
  "isl (MakeJobID R []) \<and>
   (MakeJobID R s = Inr j \<longleftrightarrow> s \<noteq> [] \<and> NewDatasetPath R s = None \<and> j = JobID s) \<and>
   MakeJobID (R\<lparr>ValidHoldTag := h\<rparr>) s = MakeJobID R s \<and>
   StepHoldTag (R\<lparr>ValidHoldTag := (\<lambda>t. Some e)\<rparr>) (JobID (c # cs)) = Inl e \<and>
   LastReceivedHoldTag (R\<lparr>ValidHoldTag := (\<lambda>t. Some e)\<rparr>) (JobID (c # cs)) = Inl e"
  by (auto simp: MakeJobID_def StepHoldTag_def LastReceivedHoldTag_def String_def
      expectInitialized_def split: option.splits)

text \<open>
  C10. \<open>UnmarshalJSON\<close> stores whatever string the JSON decoder yields, without the checks
  of \<open>MakeJobID\<close>. For the empty string this is a \<open>JobID\<close> that \<open>MakeJobID\<close> never returns
  and on which \<open>String\<close>, and with it every encoder, panics with "use of unitialized
  JobID".
\<close>

theorem UnmarshalJSON_skips_validation:
  "(unmarshal b (jid j) = (None, s) \<longrightarrow> UnmarshalJSON unmarshal j b = (None, JobID s)) \<and>
   MakeJobID R [] \<noteq> Inr (JobID []) \<and>
   String (JobID []) = Inl (Panic ''use of unitialized JobID'') \<and>
   StepHoldTag R (JobID []) = Inl (Panic ''use of unitialized JobID'') \<and>
   LastReceivedHoldTag R (JobID []) = Inl (Panic ''use of unitialized JobID'') \<and>
   StepBookmarkName R fs g (JobID []) = Inl (Panic ''use of unitialized JobID'') \<and>
   MustValidate (JobID []) = Some (Panic ''use of unitialized JobID'')"
  by (simp add: UnmarshalJSON_def MakeJobID_def String_def expectInitialized_def
      StepHoldTag_def LastReceivedHoldTag_def StepBookmarkName_def MustValidate_def)

text \<open>
  The witness: a decoder that maps the JSON text of the empty string (two quotation
  marks) to the empty string, on a \<open>JobID\<close> that \<open>MakeJobID\<close> returned.
\<close>

theorem UnmarshalJSON_skips_validation_witness:
  "(\<lambda>b old. if b = [CHR 0x22, CHR 0x22] then (None, []) else (Some (ErrMsg ''json''), old))
     [CHR 0x22, CHR 0x22] (jid (JobID ''myjob'')) = (None, []) \<and>
   UnmarshalJSON
     (\<lambda>b old. if b = [CHR 0x22, CHR 0x22] then (None, []) else (Some (ErrMsg ''json''), old))
     (JobID ''myjob'') [CHR 0x22, CHR 0x22] = (None, JobID []) \<and>
   String (JobID []) = Inl (Panic ''use of unitialized JobID'')"
  using UnmarshalJSON_skips_validation
    [of "\<lambda>b old. if b = [CHR 0x22, CHR 0x22] then (None, []) else (Some (ErrMsg ''json''), old)"
        "[CHR 0x22, CHR 0x22]" "JobID ''myjob''" "[]"]
  by simp

subsection \<open>Reading the replication cursor\<close>

text \<open>
  C6. When the listing of the versions of a filesystem succeeds and has no bookmark named
  exactly \<^verbatim>\<open>zrepl_replication_cursor\<close>, \<open>GetReplicationCursor\<close> returns a nil version with a
  nil error; when there is such a bookmark, it returns the version of the listing that is
  this bookmark. This holds for every sequence of results that the channel of the listing
  may deliver.
\<close>

theorem GetReplicationCursor_spec:
  assumes "ZFSListFilesystemVersions L fs None = Inr versions"
  shows "((\<forall>v \<in> set versions. \<not> (Type v = Bookmark \<and> Name v = ''zrepl_replication_cursor''))
            \<longrightarrow> GetReplicationCursor L fs = Inr None) \<and>
         ((\<exists>v \<in> set versions. Type v = Bookmark \<and> Name v = ''zrepl_replication_cursor'')
            \<longrightarrow> (\<exists>v \<in> set versions. Type v = Bookmark \<and> Name v = ''zrepl_replication_cursor'' \<and>
                   GetReplicationCursor L fs = Inr (Some v)))"
proof (intro conjI impI)
  assume "\<forall>v \<in> set versions. \<not> (Type v = Bookmark \<and> Name v = ''zrepl_replication_cursor'')"
  then have "find (\<lambda>v. Type v = Bookmark \<and> Name v = ReplicationCursorBookmarkName) versions = None"
    by (simp add: find_None_iff ReplicationCursorBookmarkName_def)
  with assms show "GetReplicationCursor L fs = Inr None"
    by (simp add: GetReplicationCursor_def)
next
  assume "\<exists>v \<in> set versions. Type v = Bookmark \<and> Name v = ''zrepl_replication_cursor''"
  then have "find (\<lambda>v. Type v = Bookmark \<and> Name v = ReplicationCursorBookmarkName) versions \<noteq> None"
    by (auto simp: find_None_iff ReplicationCursorBookmarkName_def)
  then obtain v where
    f: "find (\<lambda>v. Type v = Bookmark \<and> Name v = ReplicationCursorBookmarkName) versions = Some v"
    by blast
  then have "v \<in> set versions" and "Type v = Bookmark \<and> Name v = ''zrepl_replication_cursor''"
    by (auto simp: find_Some_iff ReplicationCursorBookmarkName_def)
  moreover from assms f have "GetReplicationCursor L fs = Inr (Some v)"
    by (simp add: GetReplicationCursor_def)
  ultimately show "\<exists>v \<in> set versions. Type v = Bookmark \<and> Name v = ''zrepl_replication_cursor'' \<and>
      GetReplicationCursor L fs = Inr (Some v)"
    by blast
qed

lemma list_pool_no_cursor:
  "ZFSListFilesystemVersions (ZFSListChan pool_no_cursor) ''tank/fs'' None =
     Inr [\<lparr>Type = Snapshot, Name = ''a'', Guid = 11, CreateTXG = 100, Creation = 1583020800\<rparr>,
          \<lparr>Type = Snapshot, Name = ''b'', Guid = 12, CreateTXG = 200, Creation = 1583020800\<rparr>,
          \<lparr>Type = Bookmark, Name = ''bm'', Guid = 12, CreateTXG = 200, Creation = 1583020800\<rparr>]"
  by code_simp

lemma list_pool_cursor_a:
  "ZFSListFilesystemVersions (ZFSListChan pool_cursor_a) ''tank/fs'' None =
     Inr [\<lparr>Type = Snapshot, Name = ''a'', Guid = 11, CreateTXG = 100, Creation = 1583020800\<rparr>,
          \<lparr>Type = Bookmark, Name = ''zrepl_replication_cursor'', Guid = 11, CreateTXG = 100,
             Creation = 1583020800\<rparr>,
          \<lparr>Type = Snapshot, Name = ''b'', Guid = 12, CreateTXG = 200, Creation = 1583020800\<rparr>,
          \<lparr>Type = Bookmark, Name = ''bm'', Guid = 12, CreateTXG = 200, Creation = 1583020800\<rparr>]"
  by code_simp

theorem GetReplicationCursor_spec_witness:
  "GetReplicationCursor (ZFSListChan pool_no_cursor) ''tank/fs'' = Inr None \<and>
   GetReplicationCursor (ZFSListChan pool_cursor_a) ''tank/fs'' =
     Inr (Some \<lparr>Type = Bookmark, Name = ''zrepl_replication_cursor'', Guid = 11, CreateTXG = 100,
                  Creation = 1583020800\<rparr>)"
  using GetReplicationCursor_spec [OF list_pool_no_cursor]
    GetReplicationCursor_spec [OF list_pool_cursor_a]
  by auto

subsection \<open>Releasing a step\<close>

lemma ReleaseStep_snapshot:
  assumes "ValidateExists v fs z = None" and "IsSnapshot v" and "StepHoldTag R jobID = Inr tag"
  shows "ReleaseStep R fs v jobID z = (None, map_holds (FullPath v fs) (removeAll tag) z)"
proof -
  from assms(1) obtain d where "lookup (FullPath v fs) z = Some d"
    by (auto simp: ValidateExists_def ValidateExistsAndGetCheckedProps_def
        ZFSGetCreateTXGAndGuid_def split: sum.splits option.splits if_splits)
  with assms show ?thesis
    by (simp add: ReleaseStep_def ZFSRelease_def)
qed

lemma IsBookmark_not_IsSnapshot: "IsBookmark v \<Longrightarrow> \<not> IsSnapshot v"
  by (auto simp: IsBookmark_def IsSnapshot_def split: list.splits)

text \<open>
  For a bookmark, \<open>ReleaseStep\<close> destroys the dataset whose whole path is the name that
  \<open>StepBookmarkName\<close> returns, which is the name without the filesystem: unless the pool
  has a dataset at that path, the call succeeds and changes nothing.
\<close>

lemma ReleaseStep_bookmark:
  assumes "ValidateExists v fs z = None" and "IsBookmark v"
    and "StepBookmarkName R fs (GUID v) jobID = Inr bmname" and "lookup bmname z = None"
  shows "ReleaseStep R fs v jobID z = (None, z)"
  using assms
  by (simp add: ReleaseStep_def IsBookmark_not_IsSnapshot MustBeBookmark_def
      ZFSDestroyIdempotent_def ZFSDestroy_def)

text \<open>
  C7 (the code differs from the claim). On the pool with the bookmark \<^verbatim>\<open>tank/fs#b\<close> of guid
  \<open>0xdeadbeef\<close> and the step bookmark that \<open>HoldStep\<close> created for it and job \<open>myjob\<close>,
  \<open>ReleaseStep\<close> for the same bookmark and job returns success and leaves the pool as it
  was: the step bookmark \<^verbatim>\<open>tank/fs#zrepl_STEP_G_00000000deadbeef_J_myjob\<close> is still there.
\<close>

theorem ReleaseStep_keeps_step_bookmark:
  "HoldStep spec_rules ''tank/fs'' version_bookmark_b (JobID ''myjob'')
     \<lparr>datasets = [dataset ''tank/fs#b'' 0xdeadbeef 7 []], bookmark_cloning = True\<rparr>
     = (None, pool_step_bookmark) \<and>
   ReleaseStep spec_rules ''tank/fs'' version_bookmark_b (JobID ''myjob'') pool_step_bookmark
     = (None, pool_step_bookmark) \<and>
   lookup ''tank/fs#zrepl_STEP_G_00000000deadbeef_J_myjob'' pool_step_bookmark
     = Some (dataset ''tank/fs#zrepl_STEP_G_00000000deadbeef_J_myjob'' 0xdeadbeef 7 [])"
proof (intro conjI)
  show "HoldStep spec_rules ''tank/fs'' version_bookmark_b (JobID ''myjob'')
     \<lparr>datasets = [dataset ''tank/fs#b'' 0xdeadbeef 7 []], bookmark_cloning = True\<rparr>
     = (None, pool_step_bookmark)"
    by code_simp
  show "ReleaseStep spec_rules ''tank/fs'' version_bookmark_b (JobID ''myjob'') pool_step_bookmark
     = (None, pool_step_bookmark)"
    by code_simp
  show "lookup ''tank/fs#zrepl_STEP_G_00000000deadbeef_J_myjob'' pool_step_bookmark
     = Some (dataset ''tank/fs#zrepl_STEP_G_00000000deadbeef_J_myjob'' 0xdeadbeef 7 [])"
    by code_simp
qed

subsection \<open>Releasing all steps up to a version\<close>

text \<open>The filter of \<open>ReleaseStepAll\<close> accepts no name when the filesystem is \<^verbatim>\<open>tank/fs\<close>.\<close>

lemma stepBookmarkFilter_rejects:
  "take 13 (fs @ ''#'' @ name) \<noteq> ''zrepl_STEP_G_'' \<Longrightarrow> stepBookmarkFilter R fs jobID t name = (False, None)"
  using ParseStepBookmarkName_prefix [of R "fs @ ''#'' @ name"]
  by (auto simp: stepBookmarkFilter_def split: sum.splits)

text \<open>
  C2 (the code differs from the claim). On the pool of the roll-up scenario,
  \<open>ReleaseStepAll\<close> for job \<open>myjob\<close> with \<^verbatim>\<open>@5\<close> as the most recent version returns success. It
  has released the step hold of \<open>myjob\<close> on \<^verbatim>\<open>@1\<close>, \<^verbatim>\<open>@3\<close> and \<^verbatim>\<open>@5\<close>, kept the one on \<^verbatim>\<open>@6\<close> and
  all foreign tags, and it has destroyed no bookmark: the step bookmark of \<open>myjob\<close> with
  create\_txg 2 is still there.
\<close>

theorem ReleaseStepAll_keeps_older_step_bookmark:
  "ReleaseStepAll spec_rules ''tank/fs'' version_5 (JobID ''myjob'') pool_steps =
     (None,
      \<lparr>datasets =
         [dataset ''tank/fs@1'' 101 1 [],
          dataset ''tank/fs@2'' 102 2 [''zrepl_platformtest_2''],
          dataset ''tank/fs@3'' 103 3 [],
          dataset ''tank/fs@4'' 104 4 [],
          dataset ''tank/fs@5'' 105 5 [''zrepl_STEP_J_other''],
          dataset ''tank/fs@6'' 106 6 [''zrepl_STEP_J_myjob''],
          dataset ''tank/fs#zrepl_STEP_G_0000000000000066_J_myjob'' 102 2 [],
          dataset ''tank/fs#zrepl_STEP_G_0000000000000069_J_myjob'' 105 5 [],
          dataset ''tank/fs#some_other_bookmark'' 101 1 []],
       bookmark_cloning = False\<rparr>)"
  by code_simp

subsection \<open>Moving the replication cursor\<close>

lemma lookup_filter_same:
  "lookup p (z\<lparr>datasets := filter (\<lambda>d. ds_path d \<noteq> p) (datasets z)\<rparr>) = None"
  by (simp add: lookup_def find_None_iff)

lemma find_filter_other:
  "p \<noteq> q \<Longrightarrow>
   find (\<lambda>d. ds_path d = p) (filter (\<lambda>d. ds_path d \<noteq> q) ds) = find (\<lambda>d. ds_path d = p) ds"
  by (induction ds) auto

lemma lookup_filter_other:
  "p \<noteq> q \<Longrightarrow> lookup p (z\<lparr>datasets := filter (\<lambda>d. ds_path d \<noteq> q) (datasets z)\<rparr>) = lookup p z"
  by (simp add: lookup_def find_filter_other)

lemma filter_absent:
  "lookup p z = None \<Longrightarrow> filter (\<lambda>d. ds_path d \<noteq> p) (datasets z) = datasets z"
  by (auto simp: lookup_def find_None_iff intro: filter_True)

lemma find_append_absent:
  "find P xs = None \<Longrightarrow> find P (xs @ ys) = find P ys"
  by (induction xs) (auto split: if_splits)

lemma lookup_Some_path: "lookup p z = Some d \<Longrightarrow> ds_path d = p"
  by (auto simp: lookup_def find_Some_iff)

lemma ValidateExistsAndGetCheckedProps_Inr:
  assumes "ValidateExistsAndGetCheckedProps v fs z = Inr (txg, g)"
  shows "\<exists>d. lookup (FullPath v fs) z = Some d \<and> ds_createtxg d = txg \<and> ds_guid d = g \<and>
             g = GUID v \<and> (IsSnapshot v \<or> IsBookmark v)"
  using assms
  by (auto simp: ValidateExistsAndGetCheckedProps_def ZFSGetCreateTXGAndGuid_def
      split: if_splits option.splits)

text \<open>The creation of the cursor bookmark on a pool that has none.\<close>

lemma ZFSBookmark_create:
  assumes "lookup (fs @ ''#'' @ name) z = None" and "lookup (FullPath v fs) z = Some d"
  shows "ZFSBookmark fs v name z =
           (if \<not> IsSnapshot v \<and> \<not> bookmark_cloning z then (Some ErrBookmarkCloningNotSupported, z)
            else (None, z\<lparr>datasets := datasets z @
                           [\<lparr>ds_path = fs @ ''#'' @ name, ds_guid = ds_guid d,
                             ds_createtxg = ds_createtxg d, ds_creation = ds_creation d,
                             ds_holds = []\<rparr>]\<rparr>))"
  using assms by (simp add: ZFSBookmark_def)

text \<open>
  What \<open>SetReplicationCursor\<close> does for a non-empty filesystem and a target that exists with
  create\_txg \<open>txg\<close> and guid \<open>g\<close>, by the state of the cursor.
\<close>

lemma SetReplicationCursor_no_cursor:
  assumes "fs \<noteq> []" and "ValidateExistsAndGetCheckedProps target fs z = Inr (txg, g)"
    and "lookup (fs @ ''#'' @ ''zrepl_replication_cursor'') z = None"
  shows "SetReplicationCursor fs target z =
           (case ZFSBookmark fs target ''zrepl_replication_cursor'' z of
              (Some err, z2) \<Rightarrow>
                if err = ErrBookmarkCloningNotSupported then (Some err, z2)
                else (Some (errors_Wrap err ''cannot create bookmark''), z2)
            | (None, z2) \<Rightarrow> (None, z2))"
  using assms
  by (simp add: SetReplicationCursor_def ReplicationCursorBookmarkName_def
      ZFSGetCreateTXGAndGuid_def Let_def)

lemma SetReplicationCursor_cursor:
  assumes "fs \<noteq> []" and "ValidateExistsAndGetCheckedProps target fs z = Inr (txg, g)"
    and "lookup (fs @ ''#'' @ ''zrepl_replication_cursor'') z = Some c"
  shows "SetReplicationCursor fs target z =
           (if txg < ds_createtxg c then (Some (ErrMsg ''can only be advanced, not set back''), z)
            else if ds_guid c = g then (None, z)
            else (case ZFSDestroy (fs @ ''#'' @ ''zrepl_replication_cursor'') z of
                    (Some err, z1) \<Rightarrow>
                      (Some (errors_Wrap err ''cannot destroy current cursor to move it to new''), z1)
                  | (None, z1) \<Rightarrow>
                      (case ZFSBookmark fs target ''zrepl_replication_cursor'' z1 of
                         (Some err, z2) \<Rightarrow>
                           if err = ErrBookmarkCloningNotSupported then (Some err, z2)
                           else (Some (errors_Wrap err ''cannot create bookmark''), z2)
                       | (None, z2) \<Rightarrow> (None, z2))))"
  using assms
  by (simp add: SetReplicationCursor_def ReplicationCursorBookmarkName_def
      ZFSGetCreateTXGAndGuid_def Let_def)

lemma bookmarkPath_eq: "bookmarkPath fs = fs @ ''#'' @ ''zrepl_replication_cursor''"
  by (simp add: bookmarkPath_def ReplicationCursorBookmarkName_def)

lemma SetReplicationCursor_advance:
  assumes fs: "fs \<noteq> []" and V: "ValidateExistsAndGetCheckedProps target fs z = Inr (txg, g)"
    and c: "lookup (bookmarkPath fs) z = None \<or>
            (\<exists>c. lookup (bookmarkPath fs) z = Some c \<and> \<not> txg < ds_createtxg c \<and> ds_guid c \<noteq> g \<and>
                 ds_holds c = [])"
  shows "\<exists>d. lookup (FullPath target fs) z = Some d \<and> ds_guid d = g \<and> ds_createtxg d = txg \<and>
           SetReplicationCursor fs target z =
             (if IsSnapshot target \<or> bookmark_cloning z
              then (None, z\<lparr>datasets := filter (\<lambda>d. ds_path d \<noteq> bookmarkPath fs) (datasets z) @
                              [\<lparr>ds_path = bookmarkPath fs, ds_guid = g, ds_createtxg = txg,
                                ds_creation = ds_creation d, ds_holds = []\<rparr>]\<rparr>)
              else (Some ErrBookmarkCloningNotSupported,
                    z\<lparr>datasets := filter (\<lambda>d. ds_path d \<noteq> bookmarkPath fs) (datasets z)\<rparr>))"
proof -
  let ?cp = "fs @ ''#'' @ ''zrepl_replication_cursor''"
  let ?z1 = "z\<lparr>datasets := filter (\<lambda>d. ds_path d \<noteq> ?cp) (datasets z)\<rparr>"
  from V obtain d where d: "lookup (FullPath target fs) z = Some d" "ds_createtxg d = txg"
      "ds_guid d = g"
    using ValidateExistsAndGetCheckedProps_Inr by blast
  from c have ne: "FullPath target fs \<noteq> ?cp"
    using d by (auto simp: bookmarkPath_eq)
  then have d1: "lookup (FullPath target fs) ?z1 = Some d"
    using d by (simp add: lookup_filter_other)
  have n1: "lookup ?cp ?z1 = None"
    by (rule lookup_filter_same)
  have B: "ZFSBookmark fs target ''zrepl_replication_cursor'' ?z1 =
             (if \<not> IsSnapshot target \<and> \<not> bookmark_cloning z
              then (Some ErrBookmarkCloningNotSupported, ?z1)
              else (None, z\<lparr>datasets := filter (\<lambda>d. ds_path d \<noteq> ?cp) (datasets z) @
                              [\<lparr>ds_path = ?cp, ds_guid = g, ds_createtxg = txg,
                                ds_creation = ds_creation d, ds_holds = []\<rparr>]\<rparr>))"
    using ZFSBookmark_create [OF n1 d1] d by simp
  from c show ?thesis
  proof
    assume none: "lookup (bookmarkPath fs) z = None"
    then have "?z1 = z"
      by (simp add: filter_absent bookmarkPath_eq)
    with B none d show ?thesis
      using SetReplicationCursor_no_cursor [OF fs V] by (auto simp: bookmarkPath_eq)
  next
    assume "\<exists>c. lookup (bookmarkPath fs) z = Some c \<and> \<not> txg < ds_createtxg c \<and> ds_guid c \<noteq> g \<and>
                 ds_holds c = []"
    then obtain c where cc: "lookup ?cp z = Some c" "\<not> txg < ds_createtxg c" "ds_guid c \<noteq> g"
        "ds_holds c = []"
      by (auto simp: bookmarkPath_eq)
    then have D: "ZFSDestroy ?cp z = (None, ?z1)"
      by (simp add: ZFSDestroy_def)
    from cc D B d show ?thesis
      using SetReplicationCursor_cursor [OF fs V cc(1)] by (auto simp: bookmarkPath_eq)
  qed
qed

lemma lookup_appended:
  "ds_path new = p \<Longrightarrow>
   lookup p (z\<lparr>datasets := filter (\<lambda>d. ds_path d \<noteq> p) (datasets z) @ [new]\<rparr>) = Some new"
  by (simp add: lookup_def find_append_absent find_None_iff)

lemma SetReplicationCursor_monotone:
  assumes fs: "fs \<noteq> []" and V: "ValidateExistsAndGetCheckedProps target fs z = Inr (txg, g)"
    and c: "lookup (bookmarkPath fs) z = Some c"
    and ok: "SetReplicationCursor fs target z = (None, z')"
  shows "\<exists>c'. lookup (bookmarkPath fs) z' = Some c' \<and> ds_createtxg c \<le> ds_createtxg c'"
proof -
  from c have cc: "lookup (fs @ ''#'' @ ''zrepl_replication_cursor'') z = Some c"
    by (simp add: bookmarkPath_eq)
  note S = SetReplicationCursor_cursor [OF fs V cc]
  from ok S have nlt: "\<not> txg < ds_createtxg c"
    by (auto split: if_splits)
  show ?thesis
  proof (cases "ds_guid c = g")
    case True
    with ok S nlt have "z' = z" by simp
    with c show ?thesis by auto
  next
    case False
    have h: "ds_holds c = []"
    proof (rule ccontr)
      assume "ds_holds c \<noteq> []"
      with cc have "ZFSDestroy (fs @ ''#'' @ ''zrepl_replication_cursor'') z =
          (Some (ErrMsg ''dataset is busy''), z)"
        by (simp add: ZFSDestroy_def)
      with ok S nlt False show False by simp
    qed
    with nlt False c have "lookup (bookmarkPath fs) z = None \<or>
            (\<exists>c. lookup (bookmarkPath fs) z = Some c \<and> \<not> txg < ds_createtxg c \<and> ds_guid c \<noteq> g \<and>
                 ds_holds c = [])"
      by blast
    from SetReplicationCursor_advance [OF fs V this] obtain d :: zfs_dataset where
      A: "SetReplicationCursor fs target z =
             (if IsSnapshot target \<or> bookmark_cloning z
              then (None, z\<lparr>datasets := filter (\<lambda>d. ds_path d \<noteq> bookmarkPath fs) (datasets z) @
                              [\<lparr>ds_path = bookmarkPath fs, ds_guid = g, ds_createtxg = txg,
                                ds_creation = ds_creation d, ds_holds = []\<rparr>]\<rparr>)
              else (Some ErrBookmarkCloningNotSupported,
                    z\<lparr>datasets := filter (\<lambda>d. ds_path d \<noteq> bookmarkPath fs) (datasets z)\<rparr>))"
      by blast
    with ok have
      "z' = z\<lparr>datasets := filter (\<lambda>d. ds_path d \<noteq> bookmarkPath fs) (datasets z) @
                              [\<lparr>ds_path = bookmarkPath fs, ds_guid = g, ds_createtxg = txg,
                                ds_creation = ds_creation d, ds_holds = []\<rparr>]\<rparr>"
      by (simp split: if_splits)
    then have "lookup (bookmarkPath fs) z' =
        Some \<lparr>ds_path = bookmarkPath fs, ds_guid = g, ds_createtxg = txg,
                                ds_creation = ds_creation d, ds_holds = []\<rparr>"
      by (simp add: lookup_appended)
    with nlt show ?thesis by simp
  qed
qed

text \<open>
  C3, as the claim states it, fails at a target that is a bookmark on a pool that cannot
  bookmark a bookmark: the target \<^verbatim>\<open>#bm\<close> exists (create\_txg 200, guid 12), the cursor
  exists at create\_txg 100 with another guid, and \<open>SetReplicationCursor\<close> destroys the cursor
  but creates none: it returns \<^verbatim>\<open>ErrBookmarkCloningNotSupported\<close> and leaves the filesystem
  without a cursor.
\<close>

theorem SetReplicationCursor_bookmark_target_counterexample:
  "ValidateExistsAndGetCheckedProps version_bm ''tank/fs'' pool_cursor_a = Inr (200, 12) \<and>
   lookup (bookmarkPath ''tank/fs'') pool_cursor_a
     = Some (dataset ''tank/fs#zrepl_replication_cursor'' 11 100 []) \<and>
   SetReplicationCursor ''tank/fs'' version_bm pool_cursor_a
     = (Some ErrBookmarkCloningNotSupported, pool_no_cursor) \<and>
   lookup (bookmarkPath ''tank/fs'') pool_no_cursor = None"
proof (intro conjI)
  show "ValidateExistsAndGetCheckedProps version_bm ''tank/fs'' pool_cursor_a = Inr (200, 12)"
    by code_simp
  show "lookup (bookmarkPath ''tank/fs'') pool_cursor_a
     = Some (dataset ''tank/fs#zrepl_replication_cursor'' 11 100 [])"
    by code_simp
  show "SetReplicationCursor ''tank/fs'' version_bm pool_cursor_a
     = (Some ErrBookmarkCloningNotSupported, pool_no_cursor)"
    by code_simp
  show "lookup (bookmarkPath ''tank/fs'') pool_no_cursor = None"
    by code_simp
qed

text \<open>
  C3, amended. For a non-empty filesystem and a target that exists, with create\_txg \<open>txg\<close>
  and guid \<open>g\<close>: if the cursor exists and \<open>txg\<close> is less than its create\_txg, the call fails
  with "can only be advanced" and changes nothing; otherwise, if the cursor exists and has
  guid \<open>g\<close>, it succeeds and changes nothing; otherwise (no cursor, or a cursor of another
  guid, which as a bookmark carries no hold) it destroys the cursor, if any, and then, when
  the target is a snapshot or the pool can bookmark a bookmark, creates the cursor with
  the target's guid and create\_txg, and else returns \<^verbatim>\<open>ErrBookmarkCloningNotSupported\<close>
  with the old cursor destroyed. In every successful call on a filesystem with a cursor,
  the cursor exists afterwards and its create\_txg has not decreased.
\<close>

theorem SetReplicationCursor_spec:
  assumes "fs \<noteq> []" and "ValidateExistsAndGetCheckedProps target fs z = Inr (txg, g)"
  shows
   "(\<forall>c. lookup (bookmarkPath fs) z = Some c \<and> txg < ds_createtxg c \<longrightarrow>
        SetReplicationCursor fs target z
          = (Some (ErrMsg ''can only be advanced, not set back''), z)) \<and>
    (\<forall>c. lookup (bookmarkPath fs) z = Some c \<and> \<not> txg < ds_createtxg c \<and> ds_guid c = g \<longrightarrow>
        SetReplicationCursor fs target z = (None, z)) \<and>
    (lookup (bookmarkPath fs) z = None \<or>
     (\<exists>c. lookup (bookmarkPath fs) z = Some c \<and> \<not> txg < ds_createtxg c \<and> ds_guid c \<noteq> g \<and>
          ds_holds c = []) \<longrightarrow>
       (\<exists>d. lookup (FullPath target fs) z = Some d \<and> ds_guid d = g \<and> ds_createtxg d = txg \<and>
          SetReplicationCursor fs target z =
            (if IsSnapshot target \<or> bookmark_cloning z
             then (None, z\<lparr>datasets := filter (\<lambda>d. ds_path d \<noteq> bookmarkPath fs) (datasets z) @
                             [\<lparr>ds_path = bookmarkPath fs, ds_guid = g, ds_createtxg = txg,
                               ds_creation = ds_creation d, ds_holds = []\<rparr>]\<rparr>)
             else (Some ErrBookmarkCloningNotSupported,
                   z\<lparr>datasets := filter (\<lambda>d. ds_path d \<noteq> bookmarkPath fs) (datasets z)\<rparr>)))) \<and>
    (\<forall>c z'. lookup (bookmarkPath fs) z = Some c \<and> SetReplicationCursor fs target z = (None, z') \<longrightarrow>
        (\<exists>c'. lookup (bookmarkPath fs) z' = Some c' \<and> ds_createtxg c \<le> ds_createtxg c'))"
proof (intro conjI allI impI)
  fix c
  assume "lookup (bookmarkPath fs) z = Some c \<and> txg < ds_createtxg c"
  then show "SetReplicationCursor fs target z
      = (Some (ErrMsg ''can only be advanced, not set back''), z)"
    using SetReplicationCursor_cursor [OF assms, of c] by (simp add: bookmarkPath_eq)
next
  fix c
  assume "lookup (bookmarkPath fs) z = Some c \<and> \<not> txg < ds_createtxg c \<and> ds_guid c = g"
  then show "SetReplicationCursor fs target z = (None, z)"
    using SetReplicationCursor_cursor [OF assms, of c] by (simp add: bookmarkPath_eq)
next
  assume "lookup (bookmarkPath fs) z = None \<or>
     (\<exists>c. lookup (bookmarkPath fs) z = Some c \<and> \<not> txg < ds_createtxg c \<and> ds_guid c \<noteq> g \<and>
          ds_holds c = [])"
  then show "\<exists>d. lookup (FullPath target fs) z = Some d \<and> ds_guid d = g \<and> ds_createtxg d = txg \<and>
          SetReplicationCursor fs target z =
            (if IsSnapshot target \<or> bookmark_cloning z
             then (None, z\<lparr>datasets := filter (\<lambda>d. ds_path d \<noteq> bookmarkPath fs) (datasets z) @
                             [\<lparr>ds_path = bookmarkPath fs, ds_guid = g, ds_createtxg = txg,
                               ds_creation = ds_creation d, ds_holds = []\<rparr>]\<rparr>)
             else (Some ErrBookmarkCloningNotSupported,
                   z\<lparr>datasets := filter (\<lambda>d. ds_path d \<noteq> bookmarkPath fs) (datasets z)\<rparr>))"
    by (rule SetReplicationCursor_advance [OF assms])
next
  fix c z'
  assume "lookup (bookmarkPath fs) z = Some c \<and> SetReplicationCursor fs target z = (None, z')"
  then show "\<exists>c'. lookup (bookmarkPath fs) z' = Some c' \<and> ds_createtxg c \<le> ds_createtxg c'"
    using SetReplicationCursor_monotone [OF assms] by blast
qed

lemma not_empty_tank_fs: "''tank/fs'' \<noteq> []"
  by simp

lemma validate_a_cursor_b:
  "ValidateExistsAndGetCheckedProps version_a ''tank/fs'' pool_cursor_b = Inr (100, 11)"
  by code_simp

lemma validate_b_cursor_b:
  "ValidateExistsAndGetCheckedProps version_b ''tank/fs'' pool_cursor_b = Inr (200, 12)"
  by code_simp

lemma validate_b_cursor_a:
  "ValidateExistsAndGetCheckedProps version_b ''tank/fs'' pool_cursor_a = Inr (200, 12)"
  by code_simp

lemma lookup_cursor_b:
  "lookup (bookmarkPath ''tank/fs'') pool_cursor_b
     = Some (dataset ''tank/fs#zrepl_replication_cursor'' 12 200 [])"
  by code_simp

lemma lookup_cursor_a:
  "lookup (bookmarkPath ''tank/fs'') pool_cursor_a
     = Some (dataset ''tank/fs#zrepl_replication_cursor'' 11 100 [])"
  by code_simp

lemma advanced_pool:
  "pool_cursor_a\<lparr>datasets :=
      filter (\<lambda>d. ds_path d \<noteq> bookmarkPath ''tank/fs'') (datasets pool_cursor_a) @
      [\<lparr>ds_path = bookmarkPath ''tank/fs'', ds_guid = 12, ds_createtxg = 200,
        ds_creation = 1583020800, ds_holds = []\<rparr>]\<rparr> = pool_cursor_b"
  by code_simp

lemma lookup_b_cursor_a:
  "lookup (FullPath version_b ''tank/fs'') pool_cursor_a = Some (dataset ''tank/fs@b'' 12 200 [])"
  by code_simp

theorem SetReplicationCursor_spec_witness:
  "''tank/fs'' \<noteq> [] \<and>
   ValidateExistsAndGetCheckedProps version_a ''tank/fs'' pool_cursor_b = Inr (100, 11) \<and>
   SetReplicationCursor ''tank/fs'' version_a pool_cursor_b
     = (Some (ErrMsg ''can only be advanced, not set back''), pool_cursor_b) \<and>
   ValidateExistsAndGetCheckedProps version_b ''tank/fs'' pool_cursor_b = Inr (200, 12) \<and>
   SetReplicationCursor ''tank/fs'' version_b pool_cursor_b = (None, pool_cursor_b) \<and>
   ValidateExistsAndGetCheckedProps version_b ''tank/fs'' pool_cursor_a = Inr (200, 12) \<and>
   SetReplicationCursor ''tank/fs'' version_b pool_cursor_a = (None, pool_cursor_b)"
proof -
  have 1: "SetReplicationCursor ''tank/fs'' version_a pool_cursor_b
     = (Some (ErrMsg ''can only be advanced, not set back''), pool_cursor_b)"
    using SetReplicationCursor_spec [OF not_empty_tank_fs validate_a_cursor_b] lookup_cursor_b
    by (simp add: dataset_def)
  have 2: "SetReplicationCursor ''tank/fs'' version_b pool_cursor_b = (None, pool_cursor_b)"
    using SetReplicationCursor_spec [OF not_empty_tank_fs validate_b_cursor_b] lookup_cursor_b
    by (simp add: dataset_def)
  have "IsSnapshot version_b"
    by (simp add: IsSnapshot_def version_b_def)
  then have 3: "SetReplicationCursor ''tank/fs'' version_b pool_cursor_a = (None, pool_cursor_b)"
    using SetReplicationCursor_spec [OF not_empty_tank_fs validate_b_cursor_a] lookup_cursor_a
      lookup_b_cursor_a advanced_pool
    by (simp add: dataset_def)
  from 1 2 3 validate_a_cursor_b validate_b_cursor_b validate_b_cursor_a show ?thesis
    by simp
qed

subsection \<open>Moving the last-received hold\<close>

lemma find_map_preserved:
  "(\<And>x. P (f x) = P x) \<Longrightarrow> find P (map f xs) = map_option f (find P xs)"
  by (induction xs) simp_all

lemma is_snapshot_of_version: "is_snapshot_of fs d \<Longrightarrow> is_version_of fs d"
  by (auto simp: is_snapshot_of_def is_version_of_def split: sum.splits)

lemma is_version_of_holds [simp]: "is_version_of fs (d\<lparr>ds_holds := hs\<rparr>) = is_version_of fs d"
  by (simp add: is_version_of_def)

lemma is_snapshot_of_holds [simp]: "is_snapshot_of fs (d\<lparr>ds_holds := hs\<rparr>) = is_snapshot_of fs d"
  by (simp add: is_snapshot_of_def)

lemma lookup_map_holds:
  "lookup q (map_holds p f z) =
     map_option (\<lambda>d. if ds_path d = p then d\<lparr>ds_holds := f (ds_holds d)\<rparr> else d) (lookup q z)"
  by (simp add: lookup_def map_holds_def find_map_preserved)

lemma find_Some_member: "find P xs = Some x \<Longrightarrow> x \<in> set xs \<and> P x"
  by (auto simp: find_Some_iff)

lemma find_exists: "x \<in> set xs \<Longrightarrow> P x \<Longrightarrow> \<exists>y. find P xs = Some y"
  by (cases "find P xs") (auto simp: find_None_iff)

text \<open>
  The hold: on an existing snapshot it succeeds and adds the tag to the holds of the
  snapshot, unless it is there.
\<close>

lemma ZFSHold_snapshot:
  assumes "lookup (FullPath v fs) z = Some d" and "IsSnapshot v"
  shows "ZFSHold fs v tag z =
           (None, map_holds (FullPath v fs) (\<lambda>hs. if tag \<in> set hs then hs else hs @ [tag]) z)"
  using assms by (simp add: ZFSHold_def)

text \<open>
  The strict batch release after the hold: the version that the guid refers to has the
  create\_txg of the snapshot, so the release takes the tag from the older snapshots only.
\<close>

lemma release_older_than_after_hold:
  assumes ex: "lookup p z = Some d" and of_fs: "is_snapshot_of fs d"
    and func: "\<forall>d1 \<in> set (datasets z). \<forall>d2 \<in> set (datasets z).
                 is_version_of fs d1 \<and> is_version_of fs d2 \<and> ds_guid d1 = ds_guid d2
                   \<longrightarrow> ds_createtxg d1 = ds_createtxg d2"
  shows "ZFSReleaseAllOlderThanGUID fs (ds_guid d) tag (map_holds p f z) =
           (None, (map_holds p f z)\<lparr>datasets :=
              map (\<lambda>d'. if is_snapshot_of fs d' \<and> ds_createtxg d' < ds_createtxg d
                         then d'\<lparr>ds_holds := removeAll tag (ds_holds d')\<rparr> else d')
                  (datasets (map_holds p f z))\<rparr>)"
proof -
  let ?h = "\<lambda>d. if ds_path d = p then d\<lparr>ds_holds := f (ds_holds d)\<rparr> else d"
  let ?P = "\<lambda>x. is_version_of fs x \<and> ds_guid x = ds_guid d"
  from ex have mem: "d \<in> set (datasets z)"
    by (auto simp: lookup_def dest: find_Some_member)
  with of_fs obtain ref0 where r0: "find ?P (datasets z) = Some ref0"
    using find_exists [of d "datasets z" ?P] is_snapshot_of_version by blast
  then have "ref0 \<in> set (datasets z)" and "?P ref0"
    by (auto dest: find_Some_member)
  with func mem of_fs have txg: "ds_createtxg ref0 = ds_createtxg d"
    using is_snapshot_of_version by blast
  have "find ?P (datasets (map_holds p f z)) = map_option ?h (find ?P (datasets z))"
    by (simp add: map_holds_def find_map_preserved)
  with r0 have "find ?P (datasets (map_holds p f z)) = Some (?h ref0)"
    by simp
  moreover have "ds_createtxg (?h ref0) = ds_createtxg d"
    using txg by simp
  ultimately show ?thesis
    by (simp add: ZFSReleaseAllOlderThanGUID_def release_older_def)
qed

text \<open>
  C1. Let \<open>to\<close> be a snapshot of the filesystem that exists with the expected guid, let the
  name rules accept its path and the tag \<^verbatim>\<open>zrepl_last_received_J_<jobid>\<close> of the job (whose
  id is not empty), and let the guid of a version of the filesystem determine its
  create\_txg. Then \<open>MoveLastReceivedHold\<close> succeeds with exactly two changes of the pool, in
  this order: first the hold of the tag \<^verbatim>\<open>zrepl_last_received_J_<jobid>\<close> on \<open>to\<close>, which takes
  no hold away from any dataset, then the release of this tag from exactly the snapshots
  of the filesystem whose create\_txg is strictly less than the one of \<open>to\<close>. In the state
  after either change \<open>to\<close> carries the tag, so from the hold on there is no state without
  a snapshot that carries it. A \<open>to\<close> that exists and that the name rules reject as a
  snapshot is refused with their error before any call that changes the pool; where the
  rules accept as a snapshot only a path with the delimiter \<^verbatim>\<open>@\<close>, this refuses, before any
  such call, every \<open>to\<close> whose path has none.
\<close>

theorem MoveLastReceivedHold_spec:
  "(lookup (FullPath to fs) z = Some d \<and> ds_guid d = GUID to \<and> IsSnapshot to \<and>
    is_snapshot_of fs d \<and>
    EntityNamecheck R (FullPath to fs) EntityTypeSnapshot = None \<and>
    jid jobID \<noteq> [] \<and>
    ValidHoldTag R (''zrepl_last_received_J_'' @ jid jobID) = None \<and>
    (\<forall>d1 \<in> set (datasets z). \<forall>d2 \<in> set (datasets z).
        is_version_of fs d1 \<and> is_version_of fs d2 \<and> ds_guid d1 = ds_guid d2
          \<longrightarrow> ds_createtxg d1 = ds_createtxg d2)
    \<longrightarrow>
      (let tag = ''zrepl_last_received_J_'' @ jid jobID;
           z1 = map_holds (FullPath to fs) (\<lambda>hs. if tag \<in> set hs then hs else hs @ [tag]) z;
           z2 = z1\<lparr>datasets :=
                    map (\<lambda>d'. if is_snapshot_of fs d' \<and> ds_createtxg d' < ds_createtxg d
                               then d'\<lparr>ds_holds := removeAll tag (ds_holds d')\<rparr> else d')
                        (datasets z1)\<rparr>
       in MoveLastReceivedHold R fs to jobID z = (None, [z1, z2]) \<and>
          (\<forall>q. set (holds_of q z) \<subseteq> set (holds_of q z1)) \<and>
          tag \<in> set (holds_of (FullPath to fs) z1) \<and>
          tag \<in> set (holds_of (FullPath to fs) z2))) \<and>
   (ValidateExists to fs z = None \<and>
    EntityNamecheck R (FullPath to fs) EntityTypeSnapshot = Some e
    \<longrightarrow> MoveLastReceivedHold R fs to jobID z = (Some e, [])) \<and>
   ((\<forall>p. EntityNamecheck R p EntityTypeSnapshot = None \<longrightarrow> CHR ''@'' \<in> set p) \<and>
    CHR ''@'' \<notin> set (FullPath to fs)
    \<longrightarrow> (\<exists>err. MoveLastReceivedHold R fs to jobID z = (Some err, [])))"
proof (intro conjI impI)
  assume a: "lookup (FullPath to fs) z = Some d \<and> ds_guid d = GUID to \<and> IsSnapshot to \<and>
    is_snapshot_of fs d \<and>
    EntityNamecheck R (FullPath to fs) EntityTypeSnapshot = None \<and>
    jid jobID \<noteq> [] \<and>
    ValidHoldTag R (''zrepl_last_received_J_'' @ jid jobID) = None \<and>
    (\<forall>d1 \<in> set (datasets z). \<forall>d2 \<in> set (datasets z).
        is_version_of fs d1 \<and> is_version_of fs d2 \<and> ds_guid d1 = ds_guid d2
          \<longrightarrow> ds_createtxg d1 = ds_createtxg d2)"
  let ?p = "FullPath to fs"
  let ?tag = "''zrepl_last_received_J_'' @ jid jobID"
  let ?f = "\<lambda>hs. if ?tag \<in> set hs then hs else hs @ [?tag]"
  let ?z1 = "map_holds ?p ?f z"
  let ?g = "\<lambda>d'. if is_snapshot_of fs d' \<and> ds_createtxg d' < ds_createtxg d
                   then d'\<lparr>ds_holds := removeAll ?tag (ds_holds d')\<rparr> else d'"
  let ?z2 = "?z1\<lparr>datasets := map ?g (datasets ?z1)\<rparr>"
  from a have ex: "lookup ?p z = Some d" and guid: "ds_guid d = GUID to" and snap: "IsSnapshot to"
    and of_fs: "is_snapshot_of fs d"
    and nc: "EntityNamecheck R ?p EntityTypeSnapshot = None"
    and ne: "jid jobID \<noteq> []"
    and vt: "ValidHoldTag R ?tag = None"
    by simp_all
  from a have func: "\<forall>d1 \<in> set (datasets z). \<forall>d2 \<in> set (datasets z).
        is_version_of fs d1 \<and> is_version_of fs d2 \<and> ds_guid d1 = ds_guid d2
          \<longrightarrow> ds_createtxg d1 = ds_createtxg d2"
    by blast
  from ne vt have tag: "LastReceivedHoldTag R jobID = Inr ?tag"
    by (simp add: LastReceivedHoldTag_def String_def expectInitialized_def Let_def)
  from ex guid snap have val: "ValidateExists to fs z = None"
    by (simp add: ValidateExists_def ValidateExistsAndGetCheckedProps_def
        ZFSGetCreateTXGAndGuid_def)
  have hold: "ZFSHold fs to ?tag z = (None, ?z1)"
    by (rule ZFSHold_snapshot [OF ex snap])
  have rel: "ZFSReleaseAllOlderThanGUID fs (GUID to) ?tag ?z1 = (None, ?z2)"
    using release_older_than_after_hold [OF ex of_fs func, of ?tag ?f] guid by simp
  from val nc tag hold rel have run: "MoveLastReceivedHold R fs to jobID z = (None, [?z1, ?z2])"
    by (simp add: MoveLastReceivedHold_def)
  have keep: "\<forall>q. set (holds_of q z) \<subseteq> set (holds_of q ?z1)"
    by (auto simp: holds_of_def lookup_map_holds split: option.splits)
  from ex have path: "ds_path d = ?p"
    by (rule lookup_Some_path)
  with ex have l1: "lookup ?p ?z1 = Some (d\<lparr>ds_holds := ?f (ds_holds d)\<rparr>)"
    by (simp add: lookup_map_holds)
  then have h1: "?tag \<in> set (holds_of ?p ?z1)"
    by (simp add: holds_of_def)
  have "lookup ?p ?z2 = map_option ?g (lookup ?p ?z1)"
    by (simp add: lookup_def find_map_preserved)
  with l1 have "lookup ?p ?z2 = Some (d\<lparr>ds_holds := ?f (ds_holds d)\<rparr>)"
    by simp
  then have h2: "?tag \<in> set (holds_of ?p ?z2)"
    by (simp add: holds_of_def)
  from run keep h1 h2 show "let tag = ?tag; z1 = map_holds ?p (\<lambda>hs. if tag \<in> set hs then hs else hs @ [tag]) z;
           z2 = z1\<lparr>datasets :=
                    map (\<lambda>d'. if is_snapshot_of fs d' \<and> ds_createtxg d' < ds_createtxg d
                               then d'\<lparr>ds_holds := removeAll tag (ds_holds d')\<rparr> else d')
                        (datasets z1)\<rparr>
       in MoveLastReceivedHold R fs to jobID z = (None, [z1, z2]) \<and>
          (\<forall>q. set (holds_of q z) \<subseteq> set (holds_of q z1)) \<and>
          tag \<in> set (holds_of ?p z1) \<and> tag \<in> set (holds_of ?p z2)"
    unfolding Let_def by blast
next
  assume "ValidateExists to fs z = None \<and>
    EntityNamecheck R (FullPath to fs) EntityTypeSnapshot = Some e"
  then show "MoveLastReceivedHold R fs to jobID z = (Some e, [])"
    by (simp add: MoveLastReceivedHold_def)
next
  assume b: "(\<forall>p. EntityNamecheck R p EntityTypeSnapshot = None \<longrightarrow> CHR ''@'' \<in> set p) \<and>
    CHR ''@'' \<notin> set (FullPath to fs)"
  then have "EntityNamecheck R (FullPath to fs) EntityTypeSnapshot \<noteq> None"
    by blast
  then obtain e' where "EntityNamecheck R (FullPath to fs) EntityTypeSnapshot = Some e'"
    by blast
  then show "\<exists>err. MoveLastReceivedHold R fs to jobID z = (Some err, [])"
    by (cases "ValidateExists to fs z") (simp_all add: MoveLastReceivedHold_def)
qed

lemma pool_received_hypotheses:
  "lookup (FullPath version_3 ''tank/fs'') pool_received = Some (dataset ''tank/fs@3'' 103 3 []) \<and>
   ds_guid (dataset ''tank/fs@3'' 103 3 []) = GUID version_3 \<and> IsSnapshot version_3 \<and>
   is_snapshot_of ''tank/fs'' (dataset ''tank/fs@3'' 103 3 []) \<and>
   EntityNamecheck spec_rules (FullPath version_3 ''tank/fs'') EntityTypeSnapshot = None \<and>
   jid (JobID ''myjob'') \<noteq> [] \<and>
   ValidHoldTag spec_rules (''zrepl_last_received_J_'' @ jid (JobID ''myjob'')) = None \<and>
   (\<forall>d1 \<in> set (datasets pool_received). \<forall>d2 \<in> set (datasets pool_received).
        is_version_of ''tank/fs'' d1 \<and> is_version_of ''tank/fs'' d2 \<and> ds_guid d1 = ds_guid d2
          \<longrightarrow> ds_createtxg d1 = ds_createtxg d2)"
  by code_simp

lemma tag_of_myjob: "''zrepl_last_received_J_'' @ jid (JobID ''myjob'') = ''zrepl_last_received_J_myjob''"
  by simp

text \<open>The pool of the receiving side after the hold on \<^verbatim>\<open>@3\<close>, and after the release.\<close>

lemma pool_received_after_hold:
  "map_holds (FullPath version_3 ''tank/fs'')
     (\<lambda>hs. if ''zrepl_last_received_J_myjob'' \<in> set hs then hs
            else hs @ [''zrepl_last_received_J_myjob'']) pool_received =
   \<lparr>datasets =
      [dataset ''tank/fs@1'' 101 1 [''zrepl_last_received_J_myjob'', ''keep''],
       dataset ''tank/fs@2'' 102 2 [''zrepl_last_received_J_myjob''],
       dataset ''tank/fs@3'' 103 3 [''zrepl_last_received_J_myjob''],
       dataset ''tank/fs#bm'' 102 2 []],
    bookmark_cloning = False\<rparr>"
  by code_simp

lemma pool_received_after_release:
  "\<lparr>datasets =
      [dataset ''tank/fs@1'' 101 1 [''zrepl_last_received_J_myjob'', ''keep''],
       dataset ''tank/fs@2'' 102 2 [''zrepl_last_received_J_myjob''],
       dataset ''tank/fs@3'' 103 3 [''zrepl_last_received_J_myjob''],
       dataset ''tank/fs#bm'' 102 2 []],
    bookmark_cloning = False\<rparr>
   \<lparr>datasets :=
      map (\<lambda>d'. if is_snapshot_of ''tank/fs'' d' \<and>
                    ds_createtxg d' < ds_createtxg (dataset ''tank/fs@3'' 103 3 [])
                 then d'\<lparr>ds_holds := removeAll ''zrepl_last_received_J_myjob'' (ds_holds d')\<rparr>
                 else d')
        (datasets
          \<lparr>datasets =
             [dataset ''tank/fs@1'' 101 1 [''zrepl_last_received_J_myjob'', ''keep''],
              dataset ''tank/fs@2'' 102 2 [''zrepl_last_received_J_myjob''],
              dataset ''tank/fs@3'' 103 3 [''zrepl_last_received_J_myjob''],
              dataset ''tank/fs#bm'' 102 2 []],
           bookmark_cloning = False\<rparr>)\<rparr> =
   \<lparr>datasets =
      [dataset ''tank/fs@1'' 101 1 [''keep''],
       dataset ''tank/fs@2'' 102 2 [],
       dataset ''tank/fs@3'' 103 3 [''zrepl_last_received_J_myjob''],
       dataset ''tank/fs#bm'' 102 2 []],
    bookmark_cloning = False\<rparr>"
  by code_simp

lemma pool_received_bookmark:
  "ValidateExists version_received_bm ''tank/fs'' pool_received = None \<and>
   EntityNamecheck spec_rules (FullPath version_received_bm ''tank/fs'') EntityTypeSnapshot
     = Some (ErrMsg ''invalid name'')"
  by code_simp

text \<open>The instance of the name rules accepts as a snapshot only a path with the delimiter.\<close>

lemma DecomposeVersionString_Snapshot:
  "DecomposeVersionString p = Inr (fs, Snapshot, n) \<Longrightarrow> CHR ''@'' \<in> set p"
  by (auto simp: DecomposeVersionString_def Let_def SplitN2_def split: if_splits)

lemma spec_rules_snapshot_delimiter:
  "\<forall>p. EntityNamecheck spec_rules p EntityTypeSnapshot = None \<longrightarrow> CHR ''@'' \<in> set p"
  by (auto simp: spec_rules_def legal_entity_def
      split: if_splits sum.splits VersionType.splits dest: DecomposeVersionString_Snapshot)

lemma pool_received_bookmark_path:
  "CHR ''@'' \<notin> set (FullPath version_received_bm ''tank/fs'')"
  by code_simp

theorem MoveLastReceivedHold_spec_witness:
  "MoveLastReceivedHold spec_rules ''tank/fs'' version_3 (JobID ''myjob'') pool_received =
     (None,
      [\<lparr>datasets =
          [dataset ''tank/fs@1'' 101 1 [''zrepl_last_received_J_myjob'', ''keep''],
           dataset ''tank/fs@2'' 102 2 [''zrepl_last_received_J_myjob''],
           dataset ''tank/fs@3'' 103 3 [''zrepl_last_received_J_myjob''],
           dataset ''tank/fs#bm'' 102 2 []],
        bookmark_cloning = False\<rparr>,
       \<lparr>datasets =
          [dataset ''tank/fs@1'' 101 1 [''keep''],
           dataset ''tank/fs@2'' 102 2 [],
           dataset ''tank/fs@3'' 103 3 [''zrepl_last_received_J_myjob''],
           dataset ''tank/fs#bm'' 102 2 []],
        bookmark_cloning = False\<rparr>]) \<and>
   MoveLastReceivedHold spec_rules ''tank/fs'' version_received_bm (JobID ''myjob'') pool_received =
     (Some (ErrMsg ''invalid name''), []) \<and>
   (\<exists>err. MoveLastReceivedHold spec_rules ''tank/fs'' version_received_bm (JobID ''myjob'')
        pool_received = (Some err, []))"
proof (intro conjI)
  note T = MoveLastReceivedHold_spec
      [of version_3 "''tank/fs''" pool_received "dataset ''tank/fs@3'' 103 3 []" spec_rules
          "JobID ''myjob''"]
  from mp [OF conjunct1 [OF T] pool_received_hypotheses]
  show "MoveLastReceivedHold spec_rules ''tank/fs'' version_3 (JobID ''myjob'') pool_received =
     (None,
      [\<lparr>datasets =
          [dataset ''tank/fs@1'' 101 1 [''zrepl_last_received_J_myjob'', ''keep''],
           dataset ''tank/fs@2'' 102 2 [''zrepl_last_received_J_myjob''],
           dataset ''tank/fs@3'' 103 3 [''zrepl_last_received_J_myjob''],
           dataset ''tank/fs#bm'' 102 2 []],
        bookmark_cloning = False\<rparr>,
       \<lparr>datasets =
          [dataset ''tank/fs@1'' 101 1 [''keep''],
           dataset ''tank/fs@2'' 102 2 [],
           dataset ''tank/fs@3'' 103 3 [''zrepl_last_received_J_myjob''],
           dataset ''tank/fs#bm'' 102 2 []],
        bookmark_cloning = False\<rparr>])"
    unfolding Let_def tag_of_myjob pool_received_after_hold pool_received_after_release
    by (rule conjunct1)
next
  note T = MoveLastReceivedHold_spec
      [of version_received_bm "''tank/fs''" pool_received _ spec_rules _ "ErrMsg ''invalid name''"]
  from mp [OF conjunct1 [OF conjunct2 [OF T]] pool_received_bookmark]
  show "MoveLastReceivedHold spec_rules ''tank/fs'' version_received_bm (JobID ''myjob'')
      pool_received = (Some (ErrMsg ''invalid name''), [])" .
next
  note T = MoveLastReceivedHold_spec
      [of version_received_bm "''tank/fs''" pool_received _ spec_rules "JobID ''myjob''"]
  from mp [OF conjunct2 [OF conjunct2 [OF T]]
      conjI [OF spec_rules_snapshot_delimiter pool_received_bookmark_path]]
  show "\<exists>err. MoveLastReceivedHold spec_rules ''tank/fs'' version_received_bm (JobID ''myjob'')
        pool_received = (Some err, [])" .
qed

end
